theory Spec2Isabelle
  imports Complex_Main "HOL-Library.AList"
begin

section \<open>The 3D toy generation service (main.py)\<close>

text \<open>
  The service is a thin orchestration layer: it validates uploads, keeps scratch files,
  composes one prompt, calls a hosted multimodal model and a pretrained image-to-3D
  pipeline, and sweeps old files.  Everything it calls but does not implement (the
  hosted model, PIL, the Trellis pipeline and its exporters, \<open>uuid.uuid4\<close>, the
  refusal of the operating system to delete a file) is a field of the record
  \<open>ext\<close>; everything it mutates (the three directories, the clock it reads, the
  calls it has made, what it printed) is a field of the record \<open>state\<close>.  An
  exception is a value of type \<open>exn\<close>; a function that can raise returns
  \<open>exn + 'a\<close> together with the state it leaves behind.
\<close>

subsection \<open>Values\<close>

type_synonym bytes = string

datatype dir = UPLOAD_DIR | OUTPUT_DIR | TEMP_DIR

text \<open>A \<open>Path\<close> built as \<open>DIR / name\<close>; \<open>str_path\<close> is Python's \<open>str(path)\<close>.\<close>

type_synonym path = "dir \<times> string"

fun dir_name :: "dir \<Rightarrow> string" where
  "dir_name UPLOAD_DIR = ''uploads''"
| "dir_name OUTPUT_DIR = ''outputs''"
| "dir_name TEMP_DIR = ''temp''"

definition str_path :: "path \<Rightarrow> string" where
  "str_path p = dir_name (fst p) @ ''/'' @ snd p"

text \<open>
  The two kinds of exception the handlers tell apart: FastAPI's \<open>HTTPException\<close>
  (status code, detail) and every other \<open>Exception\<close>, carried with its message
  (what \<open>str(e)\<close> yields).
\<close>

datatype exn = HTTPException nat string | Exception string

datatype image = PIL_Image bytes

datatype rep = Rep nat

datatype video = Video nat

datatype glb = Glb nat

text \<open>
  A response of the hosted model: \<open>response.text\<close> and
  \<open>response.candidates[0].content.parts\<close>, where \<open>candidates\<close>, \<open>content\<close>
  and \<open>parts\<close> may each be \<open>None\<close> and a part may carry \<open>inline_data\<close>.
\<close>

record part =
  part_text :: "string option"
  inline_data :: "bytes option"

type_synonym content = "part list option"

type_synonym candidate = "content option"

record response =
  resp_text :: "string option"
  candidates :: "candidate list option"

text \<open>What the pipeline returns: a dict from format name to a list of representations.\<close>

type_synonym outputs = "string \<Rightarrow> rep list option"

datatype call =
  GenerateContent string string image "string list"
| TrellisRun image "string list"

datatype line = Line string | Line_formats "string list"

record entry =
  is_file :: bool
  st_mtime :: real
  data :: bytes

text \<open>
  A file system is an association list from paths to entries, read through
  \<open>map_of\<close>; its order is the order in which \<open>glob\<close> lists a directory.
\<close>

type_synonym filesystem = "(path \<times> entry) list"

record upload =
  content_type :: "string option"
  content :: bytes

record model_result =
  success :: bool
  model_id :: string
  files :: "(string \<times> string) list"
  formats :: "string list"

record toy_response =
  toy_success :: bool
  message :: string
  person_description :: string
  style_description :: string
  toy_image :: string
  toy_model_result :: model_result

record image_response =
  img_success :: bool
  img_toy_image :: string
  img_person_description :: string
  img_style_description :: string

datatype cleanup_response = Cleaned_up nat

subsection \<open>The outside world\<close>

text \<open>
  Each library call is a function that yields \<open>Inl msg\<close> when the library raises an
  exception with message \<open>msg\<close>.  \<open>uuid4_draw n\<close> is the \<open>n\<close>-th value that
  \<open>uuid.uuid4()\<close> returns; \<open>generate_content n\<close> is the hosted model's answer
  to the \<open>n\<close>-th call of the process (model name, prompt, image, response
  modalities); \<open>unlink_error p\<close> is the message of the error with which the operating
  system refuses to delete \<open>p\<close>, if it does; \<open>str_HTTPException\<close> is
  \<open>HTTPException.__str__\<close> of the web framework.
\<close>

record ext =
  uuid4_draw :: "nat \<Rightarrow> string"
  unlink_error :: "path \<Rightarrow> string option"
  image_decode :: "bytes \<Rightarrow> string + image"
  image_save :: "image \<Rightarrow> string + bytes"
  generate_content :: "nat \<Rightarrow> string \<Rightarrow> string \<Rightarrow> image \<Rightarrow> string list \<Rightarrow> string + response"
  trellis_run :: "image \<Rightarrow> string list \<Rightarrow> string + outputs"
  save_ply :: "rep \<Rightarrow> string + bytes"
  render_video :: "rep \<Rightarrow> string + video"
  mimsave :: "video \<Rightarrow> string + bytes"
  to_glb :: "rep option \<Rightarrow> rep \<Rightarrow> string + glb"
  glb_export :: "glb \<Rightarrow> string + bytes"
  str_HTTPException :: "nat \<Rightarrow> string \<Rightarrow> string"

record state =
  fs :: filesystem
  clock :: real
  drawn :: nat
  model_calls :: "call list"
  stdout :: "line list"

type_synonym 'a io = "state \<Rightarrow> (exn + 'a) \<times> state"

definition io_return :: "'a \<Rightarrow> 'a io" where
  "io_return x s = (Inr x, s)"

definition io_bind :: "'a io \<Rightarrow> ('a \<Rightarrow> 'b io) \<Rightarrow> 'b io" where
  "io_bind m f s = (case m s of (Inl e, s') \<Rightarrow> (Inl e, s') | (Inr x, s') \<Rightarrow> f x s')"

definition lift_ext :: "string + 'a \<Rightarrow> exn + 'a" where
  "lift_ext r = (case r of Inl m \<Rightarrow> Inl (Exception m) | Inr x \<Rightarrow> Inr x)"

definition str_exn :: "ext \<Rightarrow> exn \<Rightarrow> string" where
  "str_exn ext e = (case e of HTTPException c d \<Rightarrow> str_HTTPException ext c d | Exception m \<Rightarrow> m)"

definition print_line :: "line \<Rightarrow> state \<Rightarrow> state" where
  "print_line l s = s\<lparr>stdout := stdout s @ [l]\<rparr>"

definition io_print :: "line \<Rightarrow> unit io" where
  "io_print l s = (Inr (), print_line l s)"

definition uuid4 :: "ext \<Rightarrow> state \<Rightarrow> string \<times> state" where
  "uuid4 ext s = (uuid4_draw ext (drawn s), s\<lparr>drawn := Suc (drawn s)\<rparr>)"

subsection \<open>Files\<close>

definition exists_path :: "state \<Rightarrow> path \<Rightarrow> bool" where
  "exists_path s p = (map_of (fs s) p \<noteq> None)"

text \<open>\<open>open(p, "wb")\<close> and a write: the file is created or replaced, stamped with the clock.\<close>

definition write_file :: "path \<Rightarrow> bytes \<Rightarrow> state \<Rightarrow> state" where
  "write_file p b s =
     s\<lparr>fs := AList.update p \<lparr>is_file = True, st_mtime = clock s, data = b\<rparr> (fs s)\<rparr>"

text \<open>\<open>Path.unlink\<close>: raises when the path is missing or the system refuses.\<close>

definition unlink :: "ext \<Rightarrow> path \<Rightarrow> unit io" where
  "unlink ext p s =
     (case map_of (fs s) p of
        None \<Rightarrow> (Inl (Exception ''No such file or directory''), s)
      | Some e \<Rightarrow>
          (case unlink_error ext p of
             Some m \<Rightarrow> (Inl (Exception m), s)
           | None \<Rightarrow> (Inr (), s\<lparr>fs := AList.delete p (fs s)\<rparr>)))"

text \<open>\<open>Image.open(p)\<close>: reads the file and decodes it.\<close>

definition Image_open :: "ext \<Rightarrow> path \<Rightarrow> state \<Rightarrow> exn + image" where
  "Image_open ext p s =
     (case map_of (fs s) p of
        None \<Rightarrow> Inl (Exception ''No such file or directory'')
      | Some e \<Rightarrow>
          if is_file e then lift_ext (image_decode ext (data e))
          else Inl (Exception ''Is a directory''))"

text \<open>\<open>directory.glob("*")\<close>: the names in the directory, in listing order.\<close>

definition glob :: "dir \<Rightarrow> state \<Rightarrow> path list" where
  "glob d s = filter (\<lambda>p. fst p = d) (map fst (fs s))"

text \<open>The file names the service builds from a uuid.\<close>

definition toy_output_path :: "string \<Rightarrow> path" where
  "toy_output_path unique_id = (OUTPUT_DIR, ''generated_toy_'' @ unique_id @ ''.png'')"

definition ply_path :: "string \<Rightarrow> path" where
  "ply_path unique_id = (OUTPUT_DIR, ''model_'' @ unique_id @ ''.ply'')"

definition video_path :: "string \<Rightarrow> path" where
  "video_path unique_id = (OUTPUT_DIR, ''preview_'' @ unique_id @ ''.mp4'')"

definition glb_path :: "string \<Rightarrow> path" where
  "glb_path unique_id = (OUTPUT_DIR, ''model_'' @ unique_id @ ''.glb'')"

definition person_temp_path :: "string \<Rightarrow> path" where
  "person_temp_path u = (TEMP_DIR, ''person_'' @ u @ ''.png'')"

definition style_temp_path :: "string \<Rightarrow> path" where
  "style_temp_path u = (TEMP_DIR, ''style_'' @ u @ ''.png'')"

definition input_temp_path :: "string \<Rightarrow> path" where
  "input_temp_path u = (TEMP_DIR, ''input_'' @ u @ ''.png'')"

subsection \<open>Strings\<close>

definition startswith :: "string \<Rightarrow> string \<Rightarrow> bool" where
  "startswith s p = (take (length p) s = p)"

text \<open>\<open>str.isspace\<close> on the ASCII range, \<open>str.strip()\<close> and \<open>replace('\n', ' ')\<close>.\<close>

definition py_isspace :: "char \<Rightarrow> bool" where
  "py_isspace c =
     (c \<in> set [CHR 0x09, CHR 0x0A, CHR 0x0B, CHR 0x0C, CHR 0x0D,
                CHR 0x1C, CHR 0x1D, CHR 0x1E, CHR 0x1F, CHR 0x20])"

definition strip :: "string \<Rightarrow> string" where
  "strip s = rev (dropWhile py_isspace (rev (dropWhile py_isspace s)))"

definition replace_newlines :: "string \<Rightarrow> string" where
  "replace_newlines s = map (\<lambda>c. if c = CHR 0x0A then CHR 0x20 else c) s"

subsection \<open>ToyGenerationService\<close>

text \<open>
  \<open>self.genai_client.models.generate_content(...)\<close>: the call is recorded, then
  answered by the outside world.  The models are taken as initialised (the startup
  hook has run).  Messages of Python's own errors are written without their quote
  marks.
\<close>

definition generate_content_call ::
    "ext \<Rightarrow> string \<Rightarrow> string \<Rightarrow> image \<Rightarrow> string list \<Rightarrow> response io" where
  "generate_content_call ext model prompt img modalities s =
     (lift_ext (generate_content ext (length (model_calls s)) model prompt img modalities),
      s\<lparr>model_calls := model_calls s @ [GenerateContent model prompt img modalities]\<rparr>)"

definition trellis_call :: "ext \<Rightarrow> image \<Rightarrow> string list \<Rightarrow> outputs io" where
  "trellis_call ext img fmts s =
     (lift_ext (trellis_run ext img fmts),
      s\<lparr>model_calls := model_calls s @ [TrellisRun img fmts]\<rparr>)"

definition person_prompt :: string where
  "person_prompt =
     ''Describe the person in this image in detail. List their hair style and color, '' @
     ''facial hair, any glasses, and the clothing they are wearing. Be factual and concise.''"

definition style_prompt :: string where
  "style_prompt =
     ''Describe the general artistic style of this toy figure. Focus on its proportions '' @
     ''(head vs body size), eye style, material (e.g., glossy vinyl, matte plastic), '' @
     ''and overall aesthetic (e.g., chibi, cute, realistic). Do not describe the '' @
     ''character itself, only the art style.''"

text \<open>\<open>response.text.strip().replace('\n', ' ')\<close>; \<open>text\<close> may be \<open>None\<close>.\<close>

definition description_of :: "response \<Rightarrow> exn + string" where
  "description_of r =
     (case resp_text r of
        None \<Rightarrow> Inl (Exception ''NoneType object has no attribute strip'')
      | Some t \<Rightarrow> Inr (replace_newlines (strip t)))"

definition analyze_person_image :: "ext \<Rightarrow> path \<Rightarrow> string io" where
  "analyze_person_image ext image_path s =
     (case
        (case Image_open ext image_path s of
           Inl e \<Rightarrow> (Inl e, s)
         | Inr person_img \<Rightarrow>
             (case generate_content_call ext ''gemini-2.5-flash'' person_prompt person_img [] s of
                (Inl e, s1) \<Rightarrow> (Inl e, s1)
              | (Inr resp, s1) \<Rightarrow> (description_of resp, s1)))
      of
        (Inl e, s') \<Rightarrow>
          (Inl (HTTPException 500 (''Error analyzing person image: '' @ str_exn ext e)), s')
      | (Inr description, s') \<Rightarrow> (Inr description, s'))"

definition analyze_toy_style :: "ext \<Rightarrow> path \<Rightarrow> string io" where
  "analyze_toy_style ext image_path s =
     (case
        (case Image_open ext image_path s of
           Inl e \<Rightarrow> (Inl e, s)
         | Inr toy_img \<Rightarrow>
             (case generate_content_call ext ''gemini-2.5-flash'' style_prompt toy_img [] s of
                (Inl e, s1) \<Rightarrow> (Inl e, s1)
              | (Inr resp, s1) \<Rightarrow> (description_of resp, s1)))
      of
        (Inl e, s') \<Rightarrow>
          (Inl (HTTPException 500 (''Error analyzing toy style: '' @ str_exn ext e)), s')
      | (Inr description, s') \<Rightarrow> (Inr description, s'))"

text \<open>The enriched prompt of \<open>generate_toy_image\<close>: three adjacent f-strings.\<close>

definition final_prompt :: "string \<Rightarrow> string \<Rightarrow> string \<Rightarrow> string" where
  "final_prompt user_prompt content_desc style_desc =
     (user_prompt @ ''. '') @
     (''The main character of the figure should be based on a person with these features: **(''
        @ content_desc @ '')**. '') @
     (''The overall artistic look and feel of the toy should match this style: **(''
        @ style_desc @ '')**.'')"

text \<open>\<open>response.candidates[0].content.parts\<close>, about to be iterated.\<close>

definition parts_of :: "response \<Rightarrow> exn + part list" where
  "parts_of r =
     (case candidates r of
        None \<Rightarrow> Inl (Exception ''NoneType object is not subscriptable'')
      | Some [] \<Rightarrow> Inl (Exception ''list index out of range'')
      | Some (c # _) \<Rightarrow>
          (case c of
             None \<Rightarrow> Inl (Exception ''NoneType object has no attribute parts'')
           | Some ps \<Rightarrow>
               (case ps of
                  None \<Rightarrow> Inl (Exception ''NoneType object is not iterable'')
                | Some xs \<Rightarrow> Inr xs)))"

text \<open>
  The loop over the parts: the first part with \<open>inline_data\<close> is decoded, saved under
  a new uuid and ends the loop (\<open>break\<close>).  The result is \<open>output_path\<close>, which is
  \<open>None\<close> exactly when \<open>image_found\<close> is still false.
\<close>

fun save_first_inline :: "ext \<Rightarrow> part list \<Rightarrow> path option io" where
  "save_first_inline ext [] s = (Inr None, s)"
| "save_first_inline ext (p # ps) s =
     (case inline_data p of
        None \<Rightarrow> save_first_inline ext ps s
      | Some d \<Rightarrow>
          (case image_decode ext d of
             Inl m \<Rightarrow> (Inl (Exception m), s)
           | Inr generated_image \<Rightarrow>
               (case uuid4 ext s of
                  (unique_id, s1) \<Rightarrow>
                    (case image_save ext generated_image of
                       Inl m \<Rightarrow> (Inl (Exception m), s1)
                     | Inr b \<Rightarrow>
                         (Inr (Some (toy_output_path unique_id)),
                          write_file (toy_output_path unique_id) b s1)))))"

definition generate_toy_image_try ::
    "ext \<Rightarrow> string \<Rightarrow> string \<Rightarrow> string \<Rightarrow> path \<Rightarrow> path io" where
  "generate_toy_image_try ext user_prompt content_desc style_desc person_image_path s =
     (case Image_open ext person_image_path s of
        Inl e \<Rightarrow> (Inl e, s)
      | Inr person_image \<Rightarrow>
          (case generate_content_call ext ''gemini-2.0-flash-preview-image-generation''
                  (final_prompt user_prompt content_desc style_desc) person_image
                  [''TEXT'', ''IMAGE'']
                  (print_line
                     (Line (''Enriched prompt: '' @ final_prompt user_prompt content_desc style_desc)) s)
           of
             (Inl e, s2) \<Rightarrow> (Inl e, s2)
           | (Inr resp, s2) \<Rightarrow>
               (case parts_of resp of
                  Inl e \<Rightarrow> (Inl e, s2)
                | Inr parts \<Rightarrow>
                    (case save_first_inline ext parts s2 of
                       (Inl e, s3) \<Rightarrow> (Inl e, s3)
                     | (Inr None, s3) \<Rightarrow>
                         (Inl (HTTPException 500 ''Model did not return an image''), s3)
                     | (Inr (Some output_path), s3) \<Rightarrow> (Inr output_path, s3)))))"

text \<open>
  The \<open>except Exception\<close> of \<open>generate_toy_image\<close> also catches the
  \<open>HTTPException\<close> raised inside the \<open>try\<close>.  The path returned stands for the
  string \<open>str(output_path)\<close>.
\<close>

definition generate_toy_image ::
    "ext \<Rightarrow> string \<Rightarrow> string \<Rightarrow> string \<Rightarrow> path \<Rightarrow> path io" where
  "generate_toy_image ext user_prompt content_desc style_desc person_image_path s =
     (case generate_toy_image_try ext user_prompt content_desc style_desc person_image_path s of
        (Inl e, s') \<Rightarrow>
          (Inl (HTTPException 500 (''Error generating toy image: '' @ str_exn ext e)), s')
      | (Inr output_path, s') \<Rightarrow> (Inr output_path, s'))"

text \<open>The format list of \<open>generate_3d_model\<close>.\<close>

definition select_formats :: "string \<Rightarrow> string list" where
  "select_formats output_format =
     (if output_format = ''all'' then [''gaussian'', ''radiance_field'', ''mesh'']
      else [output_format])"

text \<open>\<open>outputs[k][0]\<close> under the test \<open>outputs.get(k)\<close>: a missing key and an empty
  list are both falsy.\<close>

definition first_output :: "outputs \<Rightarrow> string \<Rightarrow> rep option" where
  "first_output outs k =
     (case outs k of None \<Rightarrow> None | Some [] \<Rightarrow> None | Some (x # _) \<Rightarrow> Some x)"

text \<open>The block \<open>if "gaussian" in formats and outputs.get('gaussian')\<close>: the PLY
  file, then the preview video.  \<open>result_files\<close> is the dict being filled.\<close>

definition gaussian_block ::
    "ext \<Rightarrow> string list \<Rightarrow> outputs \<Rightarrow> string \<Rightarrow> (string \<times> string) list
       \<Rightarrow> (string \<times> string) list io" where
  "gaussian_block ext fmts outs unique_id result_files s =
     (if ''gaussian'' \<in> set fmts then
        (case first_output outs ''gaussian'' of
           None \<Rightarrow> (Inr result_files, s)
         | Some g \<Rightarrow>
             (case save_ply ext g of
                Inl m \<Rightarrow> (Inl (Exception m), s)
              | Inr ply \<Rightarrow>
                  (case render_video ext g of
                     Inl m \<Rightarrow>
                       (Inl (Exception m),
                        write_file (ply_path unique_id) ply s)
                   | Inr v \<Rightarrow>
                       (case mimsave ext v of
                          Inl m \<Rightarrow>
                            (Inl (Exception m),
                             write_file (ply_path unique_id) ply s)
                        | Inr mp4 \<Rightarrow>
                            (Inr (AList.update ''preview_video''
                                    (str_path (video_path unique_id))
                                    (AList.update ''ply''
                                       (str_path (ply_path unique_id))
                                       result_files)),
                             write_file (video_path unique_id) mp4
                               (write_file (ply_path unique_id) ply s))))))
      else (Inr result_files, s))"

text \<open>The block \<open>if "mesh" in formats and outputs.get('mesh')\<close> with its own
  \<open>try\<close>: a failure of \<open>to_glb\<close> or of \<open>glb.export\<close> is printed and dropped.\<close>

definition mesh_block ::
    "ext \<Rightarrow> string list \<Rightarrow> outputs \<Rightarrow> string \<Rightarrow> (string \<times> string) list
       \<Rightarrow> state \<Rightarrow> (string \<times> string) list \<times> state" where
  "mesh_block ext fmts outs unique_id result_files s =
     (if ''mesh'' \<in> set fmts then
        (case first_output outs ''mesh'' of
           None \<Rightarrow> (result_files, s)
         | Some m \<Rightarrow>
             (case
                (case to_glb ext (first_output outs ''gaussian'') m of
                   Inl e \<Rightarrow> Inl e
                 | Inr g \<Rightarrow> glb_export ext g)
              of
                Inl e \<Rightarrow>
                  (result_files, print_line (Line (''Warning: Could not generate GLB: '' @ e)) s)
              | Inr b \<Rightarrow>
                  (AList.update ''glb''
                     (str_path (glb_path unique_id)) result_files,
                   write_file (glb_path unique_id) b s)))
      else (result_files, s))"

definition generate_3d_model_try :: "ext \<Rightarrow> path \<Rightarrow> string \<Rightarrow> model_result io" where
  "generate_3d_model_try ext image_path output_format s =
     (case Image_open ext image_path s of
        Inl e \<Rightarrow> (Inl e, s)
      | Inr img \<Rightarrow>
          (case trellis_call ext img (select_formats output_format)
                  (print_line (Line_formats (select_formats output_format)) s) of
             (Inl e, s2) \<Rightarrow> (Inl e, s2)
           | (Inr outs, s2) \<Rightarrow>
               (case uuid4 ext s2 of
                  (unique_id, s3) \<Rightarrow>
                    (case gaussian_block ext (select_formats output_format) outs unique_id [] s3 of
                       (Inl e, s4) \<Rightarrow> (Inl e, s4)
                     | (Inr result_files, s4) \<Rightarrow>
                         (case mesh_block ext (select_formats output_format) outs unique_id
                                 result_files s4 of
                            (result_files', s5) \<Rightarrow>
                              (Inr \<lparr>success = True, model_id = unique_id,
                                    files = result_files',
                                    formats = select_formats output_format\<rparr>, s5))))))"

definition generate_3d_model :: "ext \<Rightarrow> path \<Rightarrow> string \<Rightarrow> model_result io" where
  "generate_3d_model ext image_path output_format s =
     (case generate_3d_model_try ext image_path output_format s of
        (Inl e, s') \<Rightarrow>
          (Inl (HTTPException 500 (''Error generating 3D model: '' @ str_exn ext e)), s')
      | (Inr r, s') \<Rightarrow> (Inr r, s'))"

subsection \<open>Endpoints\<close>

text \<open>The \<open>finally\<close> loop over \<open>temp_files\<close>: each deletion is tried on its own and
  any error of it is passed over.\<close>

fun cleanup_temp :: "ext \<Rightarrow> path list \<Rightarrow> state \<Rightarrow> state" where
  "cleanup_temp ext [] s = s"
| "cleanup_temp ext (temp_file # rest) s =
     cleanup_temp ext rest
       (if exists_path s temp_file then
          (case unlink ext temp_file s of (Inl e, s') \<Rightarrow> s' | (Inr u, s') \<Rightarrow> s')
        else s)"

text \<open>Steps 1 to 4 of \<open>/generate-toy\<close>, after the uploads are saved.\<close>

definition toy_pipeline ::
    "ext \<Rightarrow> path \<Rightarrow> path \<Rightarrow> string \<Rightarrow> string \<Rightarrow> toy_response io" where
  "toy_pipeline ext person_path style_path prompt output_format =
     io_bind (io_print (Line ''Analyzing person image...'')) (\<lambda>_.
     io_bind (analyze_person_image ext person_path) (\<lambda>person_desc.
     io_bind (io_print (Line ''Analyzing toy style...'')) (\<lambda>_.
     io_bind (analyze_toy_style ext style_path) (\<lambda>style_desc.
     io_bind (io_print (Line ''Generating toy image...'')) (\<lambda>_.
     io_bind (generate_toy_image ext prompt person_desc style_desc person_path)
       (\<lambda>toy_image_path.
     io_bind (io_print (Line ''Generating 3D model...'')) (\<lambda>_.
     io_bind (generate_3d_model ext toy_image_path output_format) (\<lambda>model_res.
     io_return
       \<lparr>toy_success = True,
        message = ''Toy generation completed successfully'',
        person_description = person_desc,
        style_description = style_desc,
        toy_image = str_path toy_image_path,
        toy_model_result = model_res\<rparr>))))))))"

text \<open>
  The \<open>try\<close> block of \<open>/generate-toy\<close>.  It hands back, beside its outcome, the
  list \<open>temp_files\<close> as it stands when the block is left: empty while the uploads
  are being validated, the two scratch paths afterwards.  A missing content type is
  \<open>None\<close>, on which \<open>startswith\<close> raises.
\<close>

definition generate_toy_try ::
    "ext \<Rightarrow> upload \<Rightarrow> upload \<Rightarrow> string \<Rightarrow> string
       \<Rightarrow> state \<Rightarrow> ((exn + toy_response) \<times> path list) \<times> state" where
  "generate_toy_try ext person_image style_guide prompt output_format s =
     (case content_type person_image of
        None \<Rightarrow> ((Inl (Exception ''NoneType object has no attribute startswith''), []), s)
      | Some pct \<Rightarrow>
          if \<not> startswith pct ''image/'' then
            ((Inl (HTTPException 400 ''Person file must be an image''), []), s)
          else
            (case content_type style_guide of
               None \<Rightarrow> ((Inl (Exception ''NoneType object has no attribute startswith''), []), s)
             | Some sct \<Rightarrow>
                 if \<not> startswith sct ''image/'' then
                   ((Inl (HTTPException 400 ''Style guide file must be an image''), []), s)
                 else
                   (case uuid4 ext s of
                      (u1, s1) \<Rightarrow>
                        (case uuid4 ext s1 of
                           (u2, s2) \<Rightarrow>
                             (case toy_pipeline ext
                                     (person_temp_path u1)
                                     (style_temp_path u2) prompt output_format
                                     (write_file (style_temp_path u2)
                                        (content style_guide)
                                        (write_file (person_temp_path u1)
                                           (content person_image) s2))
                              of
                                (r, s') \<Rightarrow>
                                  ((r, [(person_temp_path u1),
                                        (style_temp_path u2)]), s'))))))"

text \<open>\<open>except HTTPException: raise\<close>, then \<open>except Exception as e\<close>.\<close>

definition generate_toy_except :: "exn \<Rightarrow> exn" where
  "generate_toy_except e =
     (case e of
        HTTPException c d \<Rightarrow> HTTPException c d
      | Exception m \<Rightarrow> HTTPException 500 (''Generation failed: '' @ m))"

definition generate_toy_endpoint ::
    "ext \<Rightarrow> upload \<Rightarrow> upload \<Rightarrow> string \<Rightarrow> string \<Rightarrow> toy_response io" where
  "generate_toy_endpoint ext person_image style_guide prompt output_format s =
     (case generate_toy_try ext person_image style_guide prompt output_format s of
        ((r, temp_files), s') \<Rightarrow>
          ((case r of Inl e \<Rightarrow> Inl (generate_toy_except e) | Inr v \<Rightarrow> Inr v),
           cleanup_temp ext temp_files s'))"

text \<open>\<open>/generate-image-only\<close>: no validation and no \<open>except\<close>; the \<open>finally\<close>
  loop is the same.\<close>

definition image_only_pipeline ::
    "ext \<Rightarrow> path \<Rightarrow> path \<Rightarrow> string \<Rightarrow> image_response io" where
  "image_only_pipeline ext person_path style_path prompt =
     io_bind (analyze_person_image ext person_path) (\<lambda>person_desc.
     io_bind (analyze_toy_style ext style_path) (\<lambda>style_desc.
     io_bind (generate_toy_image ext prompt person_desc style_desc person_path)
       (\<lambda>toy_image_path.
     io_return
       \<lparr>img_success = True,
        img_toy_image = str_path toy_image_path,
        img_person_description = person_desc,
        img_style_description = style_desc\<rparr>)))"

definition generate_image_only ::
    "ext \<Rightarrow> upload \<Rightarrow> upload \<Rightarrow> string \<Rightarrow> image_response io" where
  "generate_image_only ext person_image style_guide prompt s =
     (case uuid4 ext s of
        (u1, s1) \<Rightarrow>
          (case uuid4 ext s1 of
             (u2, s2) \<Rightarrow>
               (case image_only_pipeline ext
                       (person_temp_path u1)
                       (style_temp_path u2) prompt
                       (write_file (style_temp_path u2) (content style_guide)
                          (write_file (person_temp_path u1)
                             (content person_image) s2))
                of
                  (r, s') \<Rightarrow>
                    (r, cleanup_temp ext
                          [(person_temp_path u1),
                           (style_temp_path u2)] s'))))"

text \<open>\<open>/image-to-3d\<close>: one scratch file; in the \<open>finally\<close> the test
  \<open>temp_path.exists()\<close> stands outside the inner \<open>try\<close>.\<close>

definition image_to_3d :: "ext \<Rightarrow> upload \<Rightarrow> string \<Rightarrow> model_result io" where
  "image_to_3d ext img output_format s =
     (case uuid4 ext s of
        (u, s1) \<Rightarrow>
          (case generate_3d_model ext (input_temp_path u) output_format
                  (write_file (input_temp_path u) (content img) s1) of
             (r, s') \<Rightarrow>
               (r, if exists_path s' (input_temp_path u) then
                     (case unlink ext (input_temp_path u) s' of
                        (Inl e, s'') \<Rightarrow> s''
                      | (Inr v, s'') \<Rightarrow> s'')
                   else s')))"

subsection \<open>The retention sweeper\<close>

text \<open>
  The inner loop of \<open>/cleanup\<close> over one directory listing: \<open>is_file()\<close> is false
  for a path that is gone; an old file is unlinked and counted; an error of
  \<open>unlink\<close> leaves the loop.
\<close>

fun sweep_files :: "ext \<Rightarrow> real \<Rightarrow> path list \<Rightarrow> nat \<Rightarrow> nat io" where
  "sweep_files ext current_time [] count s = (Inr count, s)"
| "sweep_files ext current_time (file_path # rest) count s =
     (case map_of (fs s) file_path of
        None \<Rightarrow> sweep_files ext current_time rest count s
      | Some e \<Rightarrow>
          if is_file e then
            (if current_time - st_mtime e > 3600 then
               (case unlink ext file_path s of
                  (Inl x, s') \<Rightarrow> (Inl x, s')
                | (Inr u, s') \<Rightarrow> sweep_files ext current_time rest (Suc count) s')
             else sweep_files ext current_time rest count s)
          else sweep_files ext current_time rest count s)"

fun sweep_dirs :: "ext \<Rightarrow> real \<Rightarrow> dir list \<Rightarrow> nat \<Rightarrow> nat io" where
  "sweep_dirs ext current_time [] count s = (Inr count, s)"
| "sweep_dirs ext current_time (d # ds) count s =
     (case sweep_files ext current_time (glob d s) count s of
        (Inl x, s') \<Rightarrow> (Inl x, s')
      | (Inr c, s') \<Rightarrow> sweep_dirs ext current_time ds c s')"

text \<open>\<open>Cleaned_up count\<close> stands for the message \<open>"Cleaned up {count} files"\<close>.\<close>

definition cleanup_files :: "ext \<Rightarrow> cleanup_response io" where
  "cleanup_files ext s =
     (case sweep_dirs ext (clock s) [OUTPUT_DIR, TEMP_DIR] 0 s of
        (Inl e, s') \<Rightarrow> (Inl (HTTPException 500 (''Cleanup failed: '' @ str_exn ext e)), s')
      | (Inr count, s') \<Rightarrow> (Inr (Cleaned_up count), s'))"

subsection \<open>The service as a sequence of requests\<close>

text \<open>
  The routes that change state, and what a successful response names: the path of the
  synthesized image (\<open>toy_image\<close>) and the identifier of the model bundle
  (\<open>model_id\<close>).  \<open>handle\<close> dispatches one request as the routing table does;
  \<open>serve\<close> handles requests one after the other, each with the clock reading at
  which it arrives, and collects what the responses name.
\<close>

datatype request =
    Generate_toy upload upload string string
  | Generate_image_only upload upload string
  | Image_to_3d upload string
  | Cleanup

datatype asset = Image_asset string | Model_asset string

fun handle :: "ext \<Rightarrow> request \<Rightarrow> state \<Rightarrow> asset list \<times> state" where
  "handle ext (Generate_toy person_image style_guide prompt output_format) s =
     (case generate_toy_endpoint ext person_image style_guide prompt output_format s of
        (Inl e, s') \<Rightarrow> ([], s')
      | (Inr r, s') \<Rightarrow>
          ([Image_asset (toy_image r), Model_asset (model_id (toy_model_result r))], s'))"
| "handle ext (Generate_image_only person_image style_guide prompt) s =
     (case generate_image_only ext person_image style_guide prompt s of
        (Inl e, s') \<Rightarrow> ([], s')
      | (Inr r, s') \<Rightarrow> ([Image_asset (img_toy_image r)], s'))"
| "handle ext (Image_to_3d img output_format) s =
     (case image_to_3d ext img output_format s of
        (Inl e, s') \<Rightarrow> ([], s')
      | (Inr r, s') \<Rightarrow> ([Model_asset (model_id r)], s'))"
| "handle ext Cleanup s = ([], snd (cleanup_files ext s))"

fun serve :: "ext \<Rightarrow> (real \<times> request) list \<Rightarrow> state \<Rightarrow> asset list \<times> state" where
  "serve ext [] s = ([], s)"
| "serve ext ((t, rq) # rest) s =
     (case handle ext rq (s\<lparr>clock := t\<rparr>) of
        (named, s') \<Rightarrow>
          (case serve ext rest s' of (named', s'') \<Rightarrow> (named @ named', s'')))"

text \<open>What responses can name out of the draws numbered \<open>lo\<close> up to, not
  including, \<open>hi\<close>.\<close>

definition drawn_assets :: "ext \<Rightarrow> nat \<Rightarrow> nat \<Rightarrow> asset set" where
  "drawn_assets ext lo hi =
     (\<Union>i\<in>{lo..<hi}. {Image_asset (str_path (toy_output_path (uuid4_draw ext i))),
                       Model_asset (uuid4_draw ext i)})"

subsection \<open>Which result belongs to which format\<close>

text \<open>
  The gaussian block of \<open>generate_3d_model\<close> produces the PLY file and the preview
  video, the mesh block the GLB file; no block produces anything for a radiance field.
\<close>

definition format_keys :: "string \<Rightarrow> string set" where
  "format_keys f =
     (if f = ''gaussian'' then {''ply'', ''preview_video''}
      else if f = ''mesh'' then {''glb''} else {})"

definition format_paths :: "string \<Rightarrow> string \<Rightarrow> path set" where
  "format_paths f unique_id =
     (if f = ''gaussian'' then {ply_path unique_id, video_path unique_id}
      else if f = ''mesh'' then {glb_path unique_id} else {})"

subsection \<open>The first inline payload of a response\<close>

text \<open>The payload of the first part, in order, whose \<open>inline_data\<close> is not
  \<open>None\<close>; \<open>None\<close> when no part carries one.\<close>

definition first_inline :: "part list \<Rightarrow> bytes option" where
  "first_inline parts =
     (case List.map_filter inline_data parts of [] \<Rightarrow> None | d # _ \<Rightarrow> Some d)"

subsection \<open>Which file the sweeper is after\<close>

text \<open>
  A regular file whose age, at the time the sweeper reads the clock, exceeds 3600
  seconds; and such a file in one of the two directories the sweeper scans.
\<close>

definition file_old :: "real \<Rightarrow> entry \<Rightarrow> bool" where
  "file_old now e = (is_file e \<and> now - st_mtime e > 3600)"

definition expired :: "real \<Rightarrow> path \<times> entry \<Rightarrow> bool" where
  "expired now pe =
     ((fst (fst pe) = OUTPUT_DIR \<or> fst (fst pe) = TEMP_DIR) \<and> file_old now (snd pe))"

text \<open>The order in which \<open>/cleanup\<close> visits paths: the listing of the output
  directory, then the listing of the scratch directory.\<close>

definition scan :: "state \<Rightarrow> path list" where
  "scan s = glob OUTPUT_DIR s @ glob TEMP_DIR s"

subsection \<open>Test worlds\<close>

text \<open>
  A world in which every library call succeeds: the hosted model answers with a text
  part followed by two inline images, the pipeline returns one representation for each
  format asked for, and no deletion is refused.
\<close>

definition response0 :: response where
  "response0 =
     \<lparr>resp_text = Some '' a small figure '',
      candidates = Some [Some (Some
        [\<lparr>part_text = Some ''Here is your toy'', inline_data = None\<rparr>,
         \<lparr>part_text = None, inline_data = Some ''png-1''\<rparr>,
         \<lparr>part_text = None, inline_data = Some ''png-2''\<rparr>])]\<rparr>"

definition outputs0 :: "string list \<Rightarrow> outputs" where
  "outputs0 fmts k = (if k \<in> set fmts then Some [Rep (length k)] else None)"

definition ext0 :: ext where
  "ext0 =
     \<lparr>uuid4_draw = (\<lambda>n. replicate (Suc n) CHR ''u''),
      unlink_error = (\<lambda>p. None),
      image_decode =
        (\<lambda>b. if b = ''junk'' then Inl ''cannot identify image file'' else Inr (PIL_Image b)),
      image_save = (\<lambda>i. case i of PIL_Image b \<Rightarrow> Inr b),
      generate_content = (\<lambda>n model prompt img modalities. Inr response0),
      trellis_run = (\<lambda>img fmts. Inr (outputs0 fmts)),
      save_ply = (\<lambda>r. Inr ''ply-bytes''),
      render_video = (\<lambda>r. Inr (Video 0)),
      mimsave = (\<lambda>v. Inr ''mp4-bytes''),
      to_glb = (\<lambda>g m. Inr (Glb 0)),
      glb_export = (\<lambda>g. Inr ''glb-bytes''),
      str_HTTPException = (\<lambda>c d. (if c = 400 then ''400'' else ''500'') @ '': '' @ d)\<rparr>"

text \<open>A state with one generated image in the output directory.\<close>

definition s0 :: state where
  "s0 =
     \<lparr>fs = [((OUTPUT_DIR, ''toy.png''),
             \<lparr>is_file = True, st_mtime = 0, data = ''toy-bytes''\<rparr>)],
      clock = 100, drawn = 0, model_calls = [], stdout = []\<rparr>"

text \<open>
  A state for the sweeper at clock 10000: three old files (two generated, one scratch),
  a new file, a subdirectory and a file in the upload directory.
\<close>

definition s_sweep :: state where
  "s_sweep =
     \<lparr>fs = [((OUTPUT_DIR, ''a.ply''), \<lparr>is_file = True, st_mtime = 0, data = ''a''\<rparr>),
            ((OUTPUT_DIR, ''b.ply''), \<lparr>is_file = True, st_mtime = 100, data = ''b''\<rparr>),
            ((OUTPUT_DIR, ''new.ply''), \<lparr>is_file = True, st_mtime = 9000, data = ''n''\<rparr>),
            ((OUTPUT_DIR, ''sub''), \<lparr>is_file = False, st_mtime = 0, data = []\<rparr>),
            ((TEMP_DIR, ''old.png''), \<lparr>is_file = True, st_mtime = 5000, data = ''o''\<rparr>),
            ((UPLOAD_DIR, ''keep.png''), \<lparr>is_file = True, st_mtime = 0, data = ''k''\<rparr>)],
      clock = 10000, drawn = 0, model_calls = [], stdout = []\<rparr>"

text \<open>A world in which the system refuses to delete \<open>outputs/a.ply\<close>.\<close>

definition ext_locked :: ext where
  "ext_locked =
     ext0\<lparr>unlink_error :=
            (\<lambda>p. if p = (OUTPUT_DIR, ''a.ply'') then Some ''Permission denied'' else None)\<rparr>"

text \<open>A state whose only file is exactly 3600 seconds old.\<close>

definition s_edge :: state where
  "s_edge =
     \<lparr>fs = [((OUTPUT_DIR, ''edge.ply''), \<lparr>is_file = True, st_mtime = 0, data = ''e''\<rparr>)],
      clock = 3600, drawn = 0, model_calls = [], stdout = []\<rparr>"

text \<open>Two uploads: a PNG declared as an image, and a file declared as plain text.\<close>

definition up_png :: upload where
  "up_png = \<lparr>content_type = Some ''image/png'', content = ''png-in''\<rparr>"

definition up_text :: upload where
  "up_text = \<lparr>content_type = Some ''text/plain'', content = ''notes''\<rparr>"

text \<open>A world in which the system refuses to delete the scratch file of the first
  request.\<close>

definition ext_scratch_locked :: ext where
  "ext_scratch_locked =
     ext0\<lparr>unlink_error :=
            (\<lambda>p. if p = input_temp_path ''u'' then Some ''Permission denied'' else None)\<rparr>"

text \<open>A world in which the first inline payload of the model's answer does not decode,
  and the parts of that answer.\<close>

definition parts_junk :: "part list" where
  "parts_junk =
     [\<lparr>part_text = Some ''Here is your toy'', inline_data = None\<rparr>,
      \<lparr>part_text = None, inline_data = Some ''junk''\<rparr>,
      \<lparr>part_text = None, inline_data = Some ''png-2''\<rparr>]"

definition ext_junk :: ext where
  "ext_junk =
     ext0\<lparr>generate_content :=
            (\<lambda>n model prompt img modalities.
               Inr \<lparr>resp_text = None, candidates = Some [Some (Some parts_junk)]\<rparr>)\<rparr>"

text \<open>A world whose \<open>uuid.uuid4()\<close> returns the same value every time.\<close>

definition ext_same :: ext where
  "ext_same = ext0\<lparr>uuid4_draw := (\<lambda>n. ''same'')\<rparr>"

text \<open>The same world, except that building the GLB raises.\<close>

definition ext_glb_fails :: ext where
  "ext_glb_fails = ext0\<lparr>to_glb := (\<lambda>g m. Inl ''texture baking failed'')\<rparr>"

section \<open>Properties\<close>

lemmas prim_defs = uuid4_def write_file_def print_line_def lift_ext_def trellis_call_def
  generate_content_call_def

lemma update_key_mem:
  "(a, b) \<in> set (AList.update k v al) \<Longrightarrow> a = k \<or> (\<exists>b'. (a, b') \<in> set al)"
proof -
  assume "(a, b) \<in> set (AList.update k v al)"
  then have "a \<in> fst ` set (AList.update k v al)" by force
  then show ?thesis by (auto simp: AList.dom_update)
qed

subsection \<open>Runs of \<open>generate_3d_model\<close>\<close>

lemma gaussian_block_skip:
  "''gaussian'' \<notin> set fmts \<Longrightarrow> gaussian_block ext fmts outs uid rf s = (Inr rf, s)"
  by (simp add: gaussian_block_def)

lemma mesh_block_skip:
  "''mesh'' \<notin> set fmts \<Longrightarrow> mesh_block ext fmts outs uid rf s = (rf, s)"
  by (simp add: mesh_block_def)

lemma gaussian_block_fs:
  assumes "gaussian_block ext fmts outs uid rf s = (r, s')"
      and "map_of (fs s') p \<noteq> map_of (fs s) p"
  shows "''gaussian'' \<in> set fmts \<and> (p = ply_path uid \<or> p = video_path uid)"
  using assms
  by (auto simp: gaussian_block_def write_file_def AList.update_conv'
      split: sum.splits option.splits if_splits)

lemma gaussian_block_keys:
  assumes "gaussian_block ext fmts outs uid rf s = (Inr rf', s')"
      and "(k, v) \<in> set rf'"
  shows "(\<exists>v'. (k, v') \<in> set rf) \<or> ''gaussian'' \<in> set fmts \<and> (k = ''ply'' \<or> k = ''preview_video'')"
  using assms
  by (auto simp: gaussian_block_def split: sum.splits option.splits if_splits
      dest!: update_key_mem)

lemma mesh_block_fs:
  assumes "mesh_block ext fmts outs uid rf s = (rf', s')"
      and "map_of (fs s') p \<noteq> map_of (fs s) p"
  shows "''mesh'' \<in> set fmts \<and> p = glb_path uid"
  using assms
  by (auto simp: mesh_block_def write_file_def print_line_def AList.update_conv'
      split: sum.splits option.splits if_splits)

lemma mesh_block_keys:
  assumes "mesh_block ext fmts outs uid rf s = (rf', s')"
      and "(k, v) \<in> set rf'"
  shows "(\<exists>v'. (k, v') \<in> set rf) \<or> ''mesh'' \<in> set fmts \<and> k = ''glb''"
  using assms
  by (auto simp: mesh_block_def split: sum.splits option.splits if_splits
      dest!: update_key_mem)

lemma gen3d_cases:
  assumes "generate_3d_model ext ip fmt s = (r, s')"
  obtains
    (early) e where "r = Inl e" and "fs s' = fs s"
  | (gaussian_failed) outs s3 e e' where "fs s3 = fs s"
      and "gaussian_block ext (select_formats fmt) outs (uuid4_draw ext (drawn s)) [] s3 = (Inl e, s')"
      and "r = Inl e'"
  | (returned) outs s3 s4 rf rf' where "fs s3 = fs s"
      and "gaussian_block ext (select_formats fmt) outs (uuid4_draw ext (drawn s)) [] s3 = (Inr rf, s4)"
      and "mesh_block ext (select_formats fmt) outs (uuid4_draw ext (drawn s)) rf s4 = (rf', s')"
      and "r = Inr \<lparr>success = True, model_id = uuid4_draw ext (drawn s),
                     files = rf', formats = select_formats fmt\<rparr>"
proof (cases "Image_open ext ip s")
  case (Inl e)
  with assms show ?thesis
    by (intro early) (auto simp: generate_3d_model_def generate_3d_model_try_def)
next
  case (Inr img)
  define s1 where "s1 = print_line (Line_formats (select_formats fmt)) s"
  show ?thesis
  proof (cases "trellis_run ext img (select_formats fmt)")
    case (Inl m)
    with assms Inr show ?thesis
      by (intro early) (auto simp: generate_3d_model_def generate_3d_model_try_def prim_defs)
  next
    case outs: (Inr outs)
    define s3 where "s3 = snd (uuid4 ext (snd (trellis_call ext img (select_formats fmt) s1)))"
    have fs3: "fs s3 = fs s" by (simp add: s3_def s1_def prim_defs)
    have d3: "fst (uuid4 ext (snd (trellis_call ext img (select_formats fmt) s1))) = uuid4_draw ext (drawn s)"
      by (simp add: s1_def prim_defs)
    obtain x s4 where g: "gaussian_block ext (select_formats fmt) outs (uuid4_draw ext (drawn s)) [] s3 = (x, s4)"
      by force
    have run: "generate_3d_model_try ext ip fmt s =
      (case x of Inl e \<Rightarrow> (Inl e, s4)
       | Inr rf \<Rightarrow> (case mesh_block ext (select_formats fmt) outs (uuid4_draw ext (drawn s)) rf s4 of
            (rf', s5) \<Rightarrow> (Inr \<lparr>success = True, model_id = uuid4_draw ext (drawn s),
                     files = rf', formats = select_formats fmt\<rparr>, s5)))"
      using Inr outs g
      by (simp add: generate_3d_model_try_def s3_def s1_def prim_defs split: sum.splits prod.splits)
    show ?thesis
    proof (cases x)
      case (Inl e)
      with assms run g fs3 show ?thesis
        by (intro gaussian_failed[of s3 outs e]) (auto simp: generate_3d_model_def)
    next
      case rf: (Inr rf)
      obtain rf' s5 where m: "mesh_block ext (select_formats fmt) outs (uuid4_draw ext (drawn s)) rf s4 = (rf', s5)"
        by force
      with assms run g fs3 rf show ?thesis
        by (intro returned[of s3 outs rf s4 rf']) (auto simp: generate_3d_model_def)
    qed
  qed
qed

lemma gen3d_fs:
  assumes "generate_3d_model ext ip fmt s = (r, s')"
      and "map_of (fs s') p \<noteq> map_of (fs s) p"
  shows "(''gaussian'' \<in> set (select_formats fmt)
            \<and> (p = ply_path (uuid4_draw ext (drawn s)) \<or> p = video_path (uuid4_draw ext (drawn s))))
       \<or> (''mesh'' \<in> set (select_formats fmt) \<and> p = glb_path (uuid4_draw ext (drawn s)))"
  using assms(1)
proof (cases rule: gen3d_cases)
  case (early e)
  with assms(2) show ?thesis by simp
next
  case (gaussian_failed outs s3 e e')
  with assms(2) gaussian_block_fs[OF gaussian_failed(2), of p] show ?thesis by simp
next
  case (returned outs s3 s4 rf rf')
  show ?thesis
  proof (cases "map_of (fs s4) p = map_of (fs s3) p")
    case True
    with assms(2) returned(1) have "map_of (fs s') p \<noteq> map_of (fs s4) p" by simp
    from mesh_block_fs[OF returned(3) this] show ?thesis by simp
  next
    case False
    from gaussian_block_fs[OF returned(2) False] show ?thesis by simp
  qed
qed

lemma gen3d_keys:
  assumes "generate_3d_model ext ip fmt s = (Inr res, s')"
      and "(k, v) \<in> set (files res)"
  shows "(''gaussian'' \<in> set (select_formats fmt) \<and> (k = ''ply'' \<or> k = ''preview_video''))
       \<or> (''mesh'' \<in> set (select_formats fmt) \<and> k = ''glb'')"
  using assms(1)
proof (cases rule: gen3d_cases)
  case (returned outs s3 s4 rf rf')
  with assms(2) have "(k, v) \<in> set rf'" by simp
  from mesh_block_keys[OF returned(3) this] gaussian_block_keys[OF returned(2)]
  show ?thesis by auto
qed simp_all

lemma gen3d_result:
  assumes "generate_3d_model ext ip fmt s = (Inr res, s')"
  shows "success res \<and> model_id res = uuid4_draw ext (drawn s) \<and> formats res = select_formats fmt"
  using assms by (cases rule: gen3d_cases) simp_all

subsection \<open>Format selection and the files of a run\<close>

lemma gaussian_block_outcome:
  "fst (gaussian_block ext fmts outs uid rf s) = fst (gaussian_block ext fmts outs uid rf s')"
  by (simp add: gaussian_block_def split: sum.splits option.splits)

lemma gaussian_block_stdout:
  "gaussian_block ext fmts outs uid rf s = (r, s') \<Longrightarrow> stdout s' = stdout s"
  by (auto simp: gaussian_block_def write_file_def split: sum.splits option.splits if_splits)

lemma path_distinct:
  "glb_path u \<noteq> ply_path u" "glb_path u \<noteq> video_path u" "ply_path u \<noteq> video_path u"
  by (simp_all add: glb_path_def ply_path_def video_path_def)

lemmas eval_defs = generate_3d_model_def generate_3d_model_try_def gaussian_block_def
  mesh_block_def select_formats_def first_output_def Image_open_def prim_defs
  ext0_def s0_def outputs0_def

text \<open>
  \<^bold>\<open>C3\<close>.  The format \<open>"all"\<close> selects the three formats gaussian,
  radiance_field and mesh; any other value selects the list holding that value alone.
  When a single format is asked for, every path of the file system that a run changes
  (whether it returns or raises) is a path of that format's files, the result lists that
  format alone, and every key of its file mapping belongs to that format: nothing of the
  other two formats is produced.
\<close>

theorem C3_format_selection:
  "select_formats ''all'' = [''gaussian'', ''radiance_field'', ''mesh'']
   \<and> (output_format \<noteq> ''all'' \<longrightarrow> select_formats output_format = [output_format])
   \<and> (output_format \<noteq> ''all'' \<longrightarrow>
        generate_3d_model ext image_path output_format s = (r, s') \<longrightarrow>
          (\<forall>p. map_of (fs s') p \<noteq> map_of (fs s) p \<longrightarrow>
                 p \<in> format_paths output_format (uuid4_draw ext (drawn s)))
          \<and> (\<forall>res. r = Inr res \<longrightarrow>
                 formats res = [output_format]
                 \<and> fst ` set (files res) \<subseteq> format_keys output_format))"
proof (intro conjI impI allI)
  show "select_formats ''all'' = [''gaussian'', ''radiance_field'', ''mesh'']"
    by (simp add: select_formats_def)
next
  assume "output_format \<noteq> ''all''"
  then show "select_formats output_format = [output_format]"
    by (simp add: select_formats_def)
next
  fix p
  assume single: "output_format \<noteq> ''all''"
     and run: "generate_3d_model ext image_path output_format s = (r, s')"
     and changed: "map_of (fs s') p \<noteq> map_of (fs s) p"
  from single have sel: "select_formats output_format = [output_format]"
    by (simp add: select_formats_def)
  from gen3d_fs[OF run changed] sel
  show "p \<in> format_paths output_format (uuid4_draw ext (drawn s))"
    by (auto simp: format_paths_def)
next
  fix res
  assume single: "output_format \<noteq> ''all''"
     and run: "generate_3d_model ext image_path output_format s = (r, s')"
     and r: "r = Inr res"
  from single have sel: "select_formats output_format = [output_format]"
    by (simp add: select_formats_def)
  from run r have run': "generate_3d_model ext image_path output_format s = (Inr res, s')"
    by simp
  from gen3d_result[OF run'] sel show "formats res = [output_format]" by simp
  show "fst ` set (files res) \<subseteq> format_keys output_format"
  proof
    fix k assume "k \<in> fst ` set (files res)"
    then obtain v where "(k, v) \<in> set (files res)" by auto
    from gen3d_keys[OF run' this] sel show "k \<in> format_keys output_format"
      by (auto simp: format_keys_def)
  qed
qed

theorem C3_format_selection_witness:
  "''mesh'' \<noteq> ''all''
   \<and> fst (generate_3d_model ext0 (OUTPUT_DIR, ''toy.png'') ''mesh'' s0) =
        Inr \<lparr>success = True, model_id = ''u'',
             files = [(''glb'', ''outputs/model_u.glb'')], formats = [''mesh'']\<rparr>
   \<and> fst ` set [(''glb'', ''outputs/model_u.glb'')] \<subseteq> format_keys ''mesh''
   \<and> map_of (fs (snd (generate_3d_model ext0 (OUTPUT_DIR, ''toy.png'') ''mesh'' s0)))
         (ply_path ''u'') = None
   \<and> map_of (fs (snd (generate_3d_model ext0 (OUTPUT_DIR, ''toy.png'') ''mesh'' s0)))
         (video_path ''u'') = None"
proof -
  let ?run = "generate_3d_model ext0 (OUTPUT_DIR, ''toy.png'') ''mesh'' s0"
  let ?res = "\<lparr>success = True, model_id = ''u'',
             files = [(''glb'', ''outputs/model_u.glb'')], formats = [''mesh'']\<rparr>"
  have ne: "''mesh'' \<noteq> ''all''" by simp
  have r: "fst ?run = Inr ?res"
    by (simp add: eval_defs str_path_def glb_path_def)
  have run: "?run = (Inr ?res, snd ?run)"
    using r by (metis prod.collapse)
  have u: "uuid4_draw ext0 (drawn s0) = ''u''" by (simp add: ext0_def s0_def)
  note inst = C3_format_selection[of "''mesh''" ext0 "(OUTPUT_DIR, ''toy.png'')" s0 "Inr ?res" "snd ?run"]
  have keys: "fst ` set (files ?res) \<subseteq> format_keys ''mesh''"
    using inst ne run by blast
  have frame: "\<And>p. p \<notin> format_paths ''mesh'' ''u'' \<Longrightarrow> map_of (fs (snd ?run)) p = map_of (fs s0) p"
    using inst ne run u by metis
  have p1: "ply_path ''u'' \<notin> format_paths ''mesh'' ''u''"
    by (simp add: format_paths_def ply_path_def glb_path_def)
  have p2: "video_path ''u'' \<notin> format_paths ''mesh'' ''u''"
    by (simp add: format_paths_def video_path_def glb_path_def)
  have n1: "map_of (fs s0) (ply_path ''u'') = None" by (simp add: s0_def ply_path_def)
  have n2: "map_of (fs s0) (video_path ''u'') = None" by (simp add: s0_def video_path_def)
  show ?thesis using ne r keys frame[OF p1] frame[OF p2] n1 n2 by simp
qed

text \<open>
  \<^bold>\<open>C4\<close>.  When the run reaches the mesh block (the image opened, the pipeline
  returned, the gaussian block did not raise, a mesh was asked for and returned) and
  \<open>to_glb\<close> or \<open>glb.export\<close> raises, \<open>generate_3d_model\<close> still returns
  \<open>success = True\<close>; the file mapping is exactly what the gaussian block left (the
  PLY and preview entries when they were produced) and has no \<open>glb\<close> entry; the
  failure is printed as a warning and no GLB file is written.
\<close>

theorem C4_glb_failure_not_fatal:
  assumes opened: "Image_open ext image_path s = Inr img"
      and ran: "trellis_run ext img (select_formats output_format) = Inr outs"
      and gaussian_ok: "fst (gaussian_block ext (select_formats output_format) outs
                               (uuid4_draw ext (drawn s)) [] s) = Inr result_files"
      and mesh_asked: "''mesh'' \<in> set (select_formats output_format)"
      and mesh_there: "first_output outs ''mesh'' = Some m"
      and export_raises:
        "(case to_glb ext (first_output outs ''gaussian'') m of
            Inl e \<Rightarrow> Inl e | Inr g \<Rightarrow> glb_export ext g) = Inl e"
  shows "fst (generate_3d_model ext image_path output_format s) =
           Inr \<lparr>success = True, model_id = uuid4_draw ext (drawn s),
                files = result_files, formats = select_formats output_format\<rparr>
       \<and> map_of result_files ''glb'' = None
       \<and> stdout (snd (generate_3d_model ext image_path output_format s)) =
           stdout s @ [Line_formats (select_formats output_format),
                       Line (''Warning: Could not generate GLB: '' @ e)]
       \<and> map_of (fs (snd (generate_3d_model ext image_path output_format s)))
             (glb_path (uuid4_draw ext (drawn s))) =
           map_of (fs s) (glb_path (uuid4_draw ext (drawn s)))"
proof -
  let ?fmts = "select_formats output_format"
  let ?uid = "uuid4_draw ext (drawn s)"
  define s3 where "s3 = snd (uuid4 ext (snd (trellis_call ext img ?fmts
                             (print_line (Line_formats ?fmts) s))))"
  have fs3: "fs s3 = fs s" and out3: "stdout s3 = stdout s @ [Line_formats ?fmts]"
    by (simp_all add: s3_def prim_defs)
  obtain s4 where g: "gaussian_block ext ?fmts outs ?uid [] s3 = (Inr result_files, s4)"
    using gaussian_ok gaussian_block_outcome[of ext ?fmts outs ?uid "[]" s3 s]
    by (metis prod.collapse)
  have m: "mesh_block ext ?fmts outs ?uid result_files s4 =
             (result_files, print_line (Line (''Warning: Could not generate GLB: '' @ e)) s4)"
    using mesh_asked mesh_there export_raises
    by (simp add: mesh_block_def split: sum.splits)
  have run: "generate_3d_model ext image_path output_format s =
               (Inr \<lparr>success = True, model_id = ?uid, files = result_files, formats = ?fmts\<rparr>,
                print_line (Line (''Warning: Could not generate GLB: '' @ e)) s4)"
    using opened ran g m
    by (simp add: generate_3d_model_def generate_3d_model_try_def s3_def prim_defs)
  have keys: "map_of result_files ''glb'' = None"
  proof (cases "map_of result_files ''glb''")
    case (Some v)
    then have "(''glb'', v) \<in> set result_files" by (rule map_of_SomeD)
    from gaussian_block_keys[OF g this] show ?thesis by simp
  qed simp
  have out: "stdout s4 = stdout s3" using g by (rule gaussian_block_stdout)
  have "map_of (fs s4) (glb_path ?uid) = map_of (fs s3) (glb_path ?uid)"
    using gaussian_block_fs[OF g, of "glb_path ?uid"] path_distinct by blast
  with run keys out out3 fs3 show ?thesis by (simp add: print_line_def)
qed

theorem C4_glb_failure_not_fatal_witness:
  "Image_open ext_glb_fails (OUTPUT_DIR, ''toy.png'') s0 = Inr (PIL_Image ''toy-bytes'')
   \<and> ''mesh'' \<in> set (select_formats ''all'')
   \<and> first_output (outputs0 (select_formats ''all'')) ''mesh'' = Some (Rep 4)
   \<and> to_glb ext_glb_fails (first_output (outputs0 (select_formats ''all'')) ''gaussian'') (Rep 4)
        = Inl ''texture baking failed''
   \<and> fst (generate_3d_model ext_glb_fails (OUTPUT_DIR, ''toy.png'') ''all'' s0) =
        Inr \<lparr>success = True, model_id = ''u'',
             files = [(''ply'', ''outputs/model_u.ply''),
                      (''preview_video'', ''outputs/preview_u.mp4'')],
             formats = [''gaussian'', ''radiance_field'', ''mesh'']\<rparr>
   \<and> stdout (snd (generate_3d_model ext_glb_fails (OUTPUT_DIR, ''toy.png'') ''all'' s0)) =
        [Line_formats [''gaussian'', ''radiance_field'', ''mesh''],
         Line ''Warning: Could not generate GLB: texture baking failed'']
   \<and> map_of (fs (snd (generate_3d_model ext_glb_fails (OUTPUT_DIR, ''toy.png'') ''all'' s0)))
        (glb_path ''u'') = None"
proof -
  let ?outs = "outputs0 (select_formats ''all'')"
  let ?rf = "[(''ply'', ''outputs/model_u.ply''), (''preview_video'', ''outputs/preview_u.mp4'')]"
  have h1: "Image_open ext_glb_fails (OUTPUT_DIR, ''toy.png'') s0 = Inr (PIL_Image ''toy-bytes'')"
    by (simp add: Image_open_def ext_glb_fails_def ext0_def s0_def lift_ext_def)
  have h2: "trellis_run ext_glb_fails (PIL_Image ''toy-bytes'') (select_formats ''all'') = Inr ?outs"
    by (simp add: ext_glb_fails_def ext0_def)
  have u: "uuid4_draw ext_glb_fails (drawn s0) = ''u''"
    by (simp add: ext_glb_fails_def ext0_def s0_def)
  have h3: "fst (gaussian_block ext_glb_fails (select_formats ''all'') ?outs
                   (uuid4_draw ext_glb_fails (drawn s0)) [] s0) = Inr ?rf"
    by (simp add: u gaussian_block_def select_formats_def first_output_def outputs0_def
          ext_glb_fails_def ext0_def s0_def str_path_def ply_path_def video_path_def)
  have h4: "''mesh'' \<in> set (select_formats ''all'')"
    by (simp add: select_formats_def)
  have h5: "first_output ?outs ''mesh'' = Some (Rep 4)"
    by (simp add: select_formats_def first_output_def outputs0_def)
  have h6': "to_glb ext_glb_fails (first_output ?outs ''gaussian'') (Rep 4) = Inl ''texture baking failed''"
    by (simp add: ext_glb_fails_def)
  then have h6: "(case to_glb ext_glb_fails (first_output ?outs ''gaussian'') (Rep 4) of
            Inl e \<Rightarrow> Inl e | Inr g \<Rightarrow> glb_export ext_glb_fails g) = Inl ''texture baking failed''"
    by simp
  have n: "map_of (fs s0) (glb_path ''u'') = None"
    by (simp add: s0_def glb_path_def)
  have o: "stdout s0 = []" by (simp add: s0_def)
  have sel: "select_formats ''all'' = [''gaussian'', ''radiance_field'', ''mesh'']"
    by (simp add: select_formats_def)
  from C4_glb_failure_not_fatal[OF h1 h2 h3 h4 h5 h6] h1 h4 h5 h6' n o
  show ?thesis by (simp add: u sel)
qed

text \<open>
  \<^bold>\<open>C10\<close>.  The format is not validated: for a single format other than
  \<open>"gaussian"\<close> and \<open>"mesh"\<close> (so also \<open>"radiance_field"\<close> and any unknown
  string; \<open>"all"\<close> is the one value that is not a single format) a run never changes
  the file system, a run that returns reports success with an empty file mapping, and
  it does return whenever the image opens and the pipeline returns.  For every format,
  the only paths a run can change are the PLY, the preview and the GLB path: nothing is
  persisted for a radiance field.
\<close>

theorem C10_unvalidated_format:
  assumes "output_format \<noteq> ''all''" and "output_format \<noteq> ''gaussian''"
      and "output_format \<noteq> ''mesh''"
  shows "fs (snd (generate_3d_model ext image_path output_format s)) = fs s
       \<and> (\<forall>res. fst (generate_3d_model ext image_path output_format s) = Inr res \<longrightarrow>
              success res \<and> files res = [] \<and> formats res = [output_format])
       \<and> (\<forall>img outs. Image_open ext image_path s = Inr img \<longrightarrow>
              trellis_run ext img [output_format] = Inr outs \<longrightarrow>
              fst (generate_3d_model ext image_path output_format s) =
                Inr \<lparr>success = True, model_id = uuid4_draw ext (drawn s), files = [],
                     formats = [output_format]\<rparr>)
       \<and> (\<forall>fmt r s' p. generate_3d_model ext image_path fmt s = (r, s') \<longrightarrow>
              map_of (fs s') p \<noteq> map_of (fs s) p \<longrightarrow>
              p \<in> {ply_path (uuid4_draw ext (drawn s)), video_path (uuid4_draw ext (drawn s)),
                   glb_path (uuid4_draw ext (drawn s))})"
proof -
  have sel: "select_formats output_format = [output_format]"
    using assms by (simp add: select_formats_def)
  have g: "\<And>outs uid rf t. gaussian_block ext [output_format] outs uid rf t = (Inr rf, t)"
    using assms by (simp add: gaussian_block_skip)
  have m: "\<And>outs uid rf t. mesh_block ext [output_format] outs uid rf t = (rf, t)"
    using assms by (simp add: mesh_block_skip)
  have a: "fs (snd (generate_3d_model ext image_path output_format s)) = fs s"
    by (simp add: generate_3d_model_def generate_3d_model_try_def sel g m prim_defs
        split: sum.splits)
  have b: "\<forall>res. fst (generate_3d_model ext image_path output_format s) = Inr res \<longrightarrow>
              success res \<and> files res = [] \<and> formats res = [output_format]"
    by (auto simp: generate_3d_model_def generate_3d_model_try_def sel g m prim_defs
        split: sum.splits)
  have c: "\<forall>img outs. Image_open ext image_path s = Inr img \<longrightarrow>
              trellis_run ext img [output_format] = Inr outs \<longrightarrow>
              fst (generate_3d_model ext image_path output_format s) =
                Inr \<lparr>success = True, model_id = uuid4_draw ext (drawn s), files = [],
                     formats = [output_format]\<rparr>"
    by (auto simp: generate_3d_model_def generate_3d_model_try_def sel g m prim_defs
        split: sum.splits)
  have d: "\<forall>fmt r s' p. generate_3d_model ext image_path fmt s = (r, s') \<longrightarrow>
              map_of (fs s') p \<noteq> map_of (fs s) p \<longrightarrow>
              p \<in> {ply_path (uuid4_draw ext (drawn s)), video_path (uuid4_draw ext (drawn s)),
                   glb_path (uuid4_draw ext (drawn s))}"
    using gen3d_fs by blast
  from a b c d show ?thesis by blast
qed

theorem C10_unvalidated_format_witness:
  "''radiance_field'' \<noteq> ''all'' \<and> ''radiance_field'' \<noteq> ''gaussian''
   \<and> ''radiance_field'' \<noteq> ''mesh''
   \<and> Image_open ext0 (OUTPUT_DIR, ''toy.png'') s0 = Inr (PIL_Image ''toy-bytes'')
   \<and> fs (snd (generate_3d_model ext0 (OUTPUT_DIR, ''toy.png'') ''radiance_field'' s0)) = fs s0
   \<and> fst (generate_3d_model ext0 (OUTPUT_DIR, ''toy.png'') ''radiance_field'' s0) =
        Inr \<lparr>success = True, model_id = ''u'', files = [], formats = [''radiance_field'']\<rparr>"
proof -
  have h1: "''radiance_field'' \<noteq> ''all''" and h2: "''radiance_field'' \<noteq> ''gaussian''"
    and h3: "''radiance_field'' \<noteq> ''mesh''"
    by simp_all
  have o: "Image_open ext0 (OUTPUT_DIR, ''toy.png'') s0 = Inr (PIL_Image ''toy-bytes'')"
    by (simp add: Image_open_def ext0_def s0_def lift_ext_def)
  have t: "trellis_run ext0 (PIL_Image ''toy-bytes'') [''radiance_field''] =
             Inr (outputs0 [''radiance_field''])"
    by (simp add: ext0_def)
  have u: "uuid4_draw ext0 (drawn s0) = ''u''"
    by (simp add: ext0_def s0_def)
  from C10_unvalidated_format[OF h1 h2 h3, of ext0 "(OUTPUT_DIR, ''toy.png'')" s0] o t u h1 h2 h3
  show ?thesis by simp
qed

subsection \<open>The retention sweeper\<close>

lemma length_delete_present:
  "distinct (map fst al) \<Longrightarrow> map_of al k = Some v \<Longrightarrow>
     Suc (length (AList.delete k al)) = length al"
proof (induction al)
  case Nil
  then show ?case by simp
next
  case (Cons a al)
  show ?case
  proof (cases "fst a = k")
    case True
    with Cons.prems have "k \<notin> fst ` set al" by auto
    then have "AList.delete k al = al" by simp
    with True show ?thesis by simp
  next
    case False
    with Cons show ?thesis by auto
  qed
qed

lemma entry_of_key:
  "distinct (map fst al) \<Longrightarrow> map_of al k = Some v \<Longrightarrow> pe \<in> set al \<Longrightarrow> fst pe = k
     \<Longrightarrow> snd pe = v"
  by (cases pe) (auto dest: eq_key_imp_eq_value)

lemma sweep_files_ok:
  assumes "distinct ps" and "distinct (map fst (fs s))"
      and "\<forall>p\<in>set ps. \<forall>e. map_of (fs s) p = Some e \<longrightarrow> file_old now e \<longrightarrow>
             unlink_error ext p = None"
  shows "\<exists>c'. sweep_files ext now ps c s =
             (Inr c', s\<lparr>fs := filter (\<lambda>pe. \<not> (fst pe \<in> set ps \<and> file_old now (snd pe))) (fs s)\<rparr>)
           \<and> c' + length (filter (\<lambda>pe. \<not> (fst pe \<in> set ps \<and> file_old now (snd pe))) (fs s))
               = c + length (fs s)"
  using assms
proof (induction ps arbitrary: c s)
  case Nil
  then show ?case by simp
next
  case (Cons p ps)
  show ?case
  proof (cases "map_of (fs s) p")
    case None
    then have absent: "\<forall>pe\<in>set (fs s). fst pe \<noteq> p"
      by (auto simp: map_of_eq_None_iff)
    then have eq: "filter (\<lambda>pe. \<not> (fst pe \<in> set (p # ps) \<and> file_old now (snd pe))) (fs s)
        = filter (\<lambda>pe. \<not> (fst pe \<in> set ps \<and> file_old now (snd pe))) (fs s)"
      by (intro filter_cong) auto
    have step: "sweep_files ext now (p # ps) c s = sweep_files ext now ps c s"
      using None by simp
    from Cons.prems have "distinct ps" and "\<forall>p\<in>set ps. \<forall>e. map_of (fs s) p = Some e \<longrightarrow>
        file_old now e \<longrightarrow> unlink_error ext p = None"
      by simp_all
    from Cons.IH[OF this(1) Cons.prems(2) this(2), of c] show ?thesis
      unfolding step eq .
  next
    case (Some e)
    have only: "\<forall>pe\<in>set (fs s). fst pe = p \<longrightarrow> snd pe = e"
      using entry_of_key[OF Cons.prems(2) Some] by blast
    show ?thesis
    proof (cases "file_old now e")
      case False
      have eq: "filter (\<lambda>pe. \<not> (fst pe \<in> set (p # ps) \<and> file_old now (snd pe))) (fs s)
        = filter (\<lambda>pe. \<not> (fst pe \<in> set ps \<and> file_old now (snd pe))) (fs s)"
        using only False by (intro filter_cong) auto
      have step: "sweep_files ext now (p # ps) c s = sweep_files ext now ps c s"
        using Some False by (simp add: file_old_def)
      from Cons.prems have "distinct ps" and "\<forall>p\<in>set ps. \<forall>e. map_of (fs s) p = Some e \<longrightarrow>
          file_old now e \<longrightarrow> unlink_error ext p = None"
        by simp_all
      from Cons.IH[OF this(1) Cons.prems(2) this(2), of c] show ?thesis
        unfolding step eq .
    next
      case True
      with Cons.prems Some have ok: "unlink_error ext p = None" by simp
      let ?s' = "s\<lparr>fs := AList.delete p (fs s)\<rparr>"
      have d': "distinct (map fst (fs ?s'))"
        using Cons.prems(2) by (simp add: AList.distinct_delete)
      have r': "\<forall>q\<in>set ps. \<forall>e. map_of (fs ?s') q = Some e \<longrightarrow> file_old now e \<longrightarrow>
             unlink_error ext q = None"
        using Cons.prems by (auto simp: AList.delete_conv')
      have dps: "distinct ps" using Cons.prems(1) by simp
      from Cons.IH[OF dps d' r', of "Suc c"] obtain c' where
        run: "sweep_files ext now ps (Suc c) ?s' =
               (Inr c', ?s'\<lparr>fs := filter (\<lambda>pe. \<not> (fst pe \<in> set ps \<and> file_old now (snd pe))) (fs ?s')\<rparr>)"
        and cnt: "c' + length (filter (\<lambda>pe. \<not> (fst pe \<in> set ps \<and> file_old now (snd pe))) (fs ?s'))
               = Suc c + length (fs ?s')"
        by blast
      have eq: "filter (\<lambda>pe. \<not> (fst pe \<in> set ps \<and> file_old now (snd pe))) (AList.delete p (fs s))
        = filter (\<lambda>pe. \<not> (fst pe \<in> set (p # ps) \<and> file_old now (snd pe))) (fs s)"
        using only True by (auto simp: AList.delete_eq intro!: filter_cong)
      have len: "Suc (length (AList.delete p (fs s))) = length (fs s)"
        using length_delete_present[OF Cons.prems(2) Some] .
      have step: "sweep_files ext now (p # ps) c s = sweep_files ext now ps (Suc c) ?s'"
        using Some True ok by (simp add: file_old_def unlink_def)
      have "sweep_files ext now (p # ps) c s =
              (Inr c', s\<lparr>fs := filter (\<lambda>pe. \<not> (fst pe \<in> set (p # ps) \<and> file_old now (snd pe))) (fs s)\<rparr>)"
        unfolding step run eq[symmetric] by simp
      moreover have "c' + length (filter (\<lambda>pe. \<not> (fst pe \<in> set (p # ps) \<and> file_old now (snd pe))) (fs s))
               = c + length (fs s)"
        using cnt len unfolding eq[symmetric] by simp
      ultimately show ?thesis by blast
    qed
  qed
qed


lemma cleanup_files_ok:
  assumes d: "distinct (map fst (fs s))"
      and ok: "\<forall>pe\<in>set (fs s). expired (clock s) pe \<longrightarrow> unlink_error ext (fst pe) = None"
  shows "cleanup_files ext s =
           (Inr (Cleaned_up (length (filter (expired (clock s)) (fs s)))),
            s\<lparr>fs := filter (\<lambda>pe. \<not> expired (clock s) pe) (fs s)\<rparr>)"
proof -
  let ?now = "clock s"
  let ?ps1 = "glob OUTPUT_DIR s"
  let ?F1 = "filter (\<lambda>pe. \<not> (fst pe \<in> set ?ps1 \<and> file_old ?now (snd pe))) (fs s)"
  let ?s1 = "s\<lparr>fs := ?F1\<rparr>"
  let ?ps2 = "glob TEMP_DIR ?s1"
  let ?F2 = "filter (\<lambda>pe. \<not> (fst pe \<in> set ?ps2 \<and> file_old ?now (snd pe))) ?F1"
  have d1: "distinct ?ps1" using d by (simp add: glob_def)
  have ok1: "\<forall>p\<in>set ?ps1. \<forall>e. map_of (fs s) p = Some e \<longrightarrow> file_old ?now e \<longrightarrow>
               unlink_error ext p = None"
  proof (intro ballI allI impI)
    fix p e assume "p \<in> set ?ps1" "map_of (fs s) p = Some e" "file_old ?now e"
    then have "(p, e) \<in> set (fs s)" "expired ?now (p, e)"
      by (auto simp: glob_def expired_def dest: map_of_SomeD)
    with ok show "unlink_error ext p = None" by fastforce
  qed
  from sweep_files_ok[OF d1 d ok1, of 0] obtain c1 where
    run1: "sweep_files ext ?now ?ps1 0 s = (Inr c1, ?s1)" and cnt1: "c1 + length ?F1 = length (fs s)"
    by auto
  have dF1: "distinct (map fst (fs ?s1))" using d by (simp add: distinct_map_filter)
  have d2: "distinct ?ps2" using dF1 by (simp add: glob_def)
  have ok2: "\<forall>p\<in>set ?ps2. \<forall>e. map_of (fs ?s1) p = Some e \<longrightarrow> file_old ?now e \<longrightarrow>
               unlink_error ext p = None"
  proof (intro ballI allI impI)
    fix p e assume "p \<in> set ?ps2" "map_of (fs ?s1) p = Some e" "file_old ?now e"
    then have "(p, e) \<in> set (fs s)" "expired ?now (p, e)"
      by (auto simp: glob_def expired_def dest!: map_of_SomeD)
    with ok show "unlink_error ext p = None" by fastforce
  qed
  from sweep_files_ok[OF d2 dF1 ok2, of c1] obtain c2 where
    run2: "sweep_files ext ?now ?ps2 c1 ?s1 = (Inr c2, ?s1\<lparr>fs := ?F2\<rparr>)"
    and cnt2: "c2 + length ?F2 = c1 + length ?F1"
    by auto
  have F2: "?F2 = filter (\<lambda>pe. \<not> expired ?now pe) (fs s)"
    unfolding filter_filter
    by (rule filter_cong) (auto simp: glob_def expired_def intro: rev_image_eqI)
  have "length (filter (expired ?now) (fs s)) + length ?F2 = length (fs s)"
    unfolding F2 by (rule sum_length_filter_compl)
  with cnt1 cnt2 have c2: "c2 = length (filter (expired ?now) (fs s))" by simp
  have "sweep_dirs ext ?now [OUTPUT_DIR, TEMP_DIR] 0 s = (Inr c2, ?s1\<lparr>fs := ?F2\<rparr>)"
    using run1 run2 by simp
  then show ?thesis
    unfolding cleanup_files_def c2 F2 by simp
qed

lemma map_of_filter_distinct:
  "distinct (map fst xs) \<Longrightarrow> map_of xs k = Some v \<Longrightarrow>
     map_of (filter P xs) k = (if P (k, v) then Some v else None)"
proof (induction xs)
  case Nil
  then show ?case by simp
next
  case (Cons a xs)
  show ?case
  proof (cases "fst a = k")
    case True
    with Cons.prems have a: "a = (k, v)" by (cases a) auto
    from Cons.prems True have "k \<notin> fst ` set (filter P xs)" by auto
    then have "map_of (filter P xs) k = None" by (simp add: map_of_eq_None_iff)
    with a show ?thesis by simp
  next
    case False
    with Cons show ?thesis by (cases a) auto
  qed
qed

lemma sweep_files_returned:
  assumes "sweep_files ext now ps c s = (Inr c', s')" and "distinct ps"
  shows "\<forall>p\<in>set ps. \<forall>e. map_of (fs s) p = Some e \<longrightarrow> file_old now e \<longrightarrow>
           unlink_error ext p = None"
  using assms
proof (induction ps arbitrary: c s)
  case Nil
  then show ?case by simp
next
  case (Cons p ps)
  show ?case
  proof (cases "map_of (fs s) p")
    case None
    with Cons.prems have "sweep_files ext now ps c s = (Inr c', s')" by simp
    from Cons.IH[OF this] Cons.prems(2) None show ?thesis by simp
  next
    case (Some e)
    show ?thesis
    proof (cases "file_old now e")
      case False
      with Cons.prems Some have "sweep_files ext now ps c s = (Inr c', s')"
        by (auto simp: file_old_def split: if_splits)
      from Cons.IH[OF this] Cons.prems(2) Some False show ?thesis by simp
    next
      case True
      show ?thesis
      proof (cases "unlink_error ext p")
        case (Some m)
        with Cons.prems \<open>map_of (fs s) p = Some e\<close> True show ?thesis
          by (simp add: file_old_def unlink_def)
      next
        case None
        let ?s' = "s\<lparr>fs := AList.delete p (fs s)\<rparr>"
        from Cons.prems \<open>map_of (fs s) p = Some e\<close> True None
        have "sweep_files ext now ps (Suc c) ?s' = (Inr c', s')"
          by (simp add: file_old_def unlink_def)
        from Cons.IH[OF this] Cons.prems(2)
        have "\<forall>q\<in>set ps. \<forall>e. map_of (AList.delete p (fs s)) q = Some e \<longrightarrow> file_old now e \<longrightarrow>
           unlink_error ext q = None" by simp
        moreover have "\<forall>q\<in>set ps. map_of (AList.delete p (fs s)) q = map_of (fs s) q"
          using Cons.prems(2) by (auto simp: AList.delete_conv')
        ultimately show ?thesis using None by simp
      qed
    qed
  qed
qed


lemma cleanup_files_returned:
  assumes d: "distinct (map fst (fs s))"
      and run: "cleanup_files ext s = (Inr r, s1)"
  shows "\<forall>pe\<in>set (fs s). expired (clock s) pe \<longrightarrow> unlink_error ext (fst pe) = None"
proof -
  let ?now = "clock s"
  let ?ps1 = "glob OUTPUT_DIR s"
  let ?F1 = "filter (\<lambda>pe. \<not> (fst pe \<in> set ?ps1 \<and> file_old ?now (snd pe))) (fs s)"
  let ?s1 = "s\<lparr>fs := ?F1\<rparr>"
  let ?ps2 = "glob TEMP_DIR ?s1"
  obtain x sa where a: "sweep_files ext ?now ?ps1 0 s = (x, sa)" by force
  with run obtain c1 where x: "x = Inr c1"
    by (cases x) (auto simp: cleanup_files_def split: prod.splits sum.splits)
  have d1: "distinct ?ps1" using d by (simp add: glob_def)
  from sweep_files_returned[OF a[unfolded x] d1]
  have ok1: "\<forall>p\<in>set ?ps1. \<forall>e. map_of (fs s) p = Some e \<longrightarrow> file_old ?now e \<longrightarrow>
               unlink_error ext p = None" .
  from sweep_files_ok[OF d1 d ok1, of 0] a x have sa: "sa = ?s1" by auto
  obtain y sb where b: "sweep_files ext ?now ?ps2 c1 ?s1 = (y, sb)" by force
  with run a x sa obtain c2 where y: "y = Inr c2"
    by (cases y) (auto simp: cleanup_files_def split: prod.splits sum.splits)
  have dF1: "distinct (map fst (fs ?s1))" using d by (simp add: distinct_map_filter)
  have d2: "distinct ?ps2" using dF1 by (simp add: glob_def)
  from sweep_files_returned[OF b[unfolded y] d2]
  have ok2: "\<forall>p\<in>set ?ps2. \<forall>e. map_of ?F1 p = Some e \<longrightarrow> file_old ?now e \<longrightarrow>
               unlink_error ext p = None" by simp
  show ?thesis
  proof (intro ballI impI)
    fix pe assume pe: "pe \<in> set (fs s)" and ex: "expired ?now pe"
    obtain p e where [simp]: "pe = (p, e)" by (cases pe)
    from ex have old: "file_old ?now e" by (simp add: expired_def)
    from ex consider "fst p = OUTPUT_DIR" | "fst p = TEMP_DIR" by (auto simp: expired_def)
    then show "unlink_error ext (fst pe) = None"
    proof cases
      case 1
      with pe have "p \<in> set ?ps1" by (auto simp: glob_def intro: rev_image_eqI)
      moreover from pe d have "map_of (fs s) p = Some e" by simp
      ultimately show ?thesis using ok1 old by simp
    next
      case 2
      then have "p \<notin> set ?ps1" by (auto simp: glob_def)
      with pe have in1: "(p, e) \<in> set ?F1" by simp
      with 2 have "p \<in> set ?ps2" by (auto simp: glob_def intro: rev_image_eqI)
      moreover from in1 dF1 have "map_of ?F1 p = Some e" by simp
      ultimately show ?thesis using ok2 old by simp
    qed
  qed
qed

lemma sweep_files_append:
  "sweep_files ext now (ps @ qs) c s =
     (case sweep_files ext now ps c s of
        (Inl x, s') \<Rightarrow> (Inl x, s')
      | (Inr c', s') \<Rightarrow> sweep_files ext now qs c' s')"
  by (induction ps arbitrary: c s)
     (auto split: option.splits prod.splits sum.splits)

lemma sweep_files_refused:
  assumes dps: "distinct (ps1 @ p0 # ps2)" and d: "distinct (map fst (fs s))"
      and ok: "\<forall>p\<in>set ps1. \<forall>e. map_of (fs s) p = Some e \<longrightarrow> file_old now e \<longrightarrow>
                 unlink_error ext p = None"
      and p0: "map_of (fs s) p0 = Some e0" and old: "file_old now e0"
      and refused: "unlink_error ext p0 = Some m"
  shows "sweep_files ext now (ps1 @ p0 # ps2) c s =
           (Inl (Exception m),
            s\<lparr>fs := filter (\<lambda>pe. \<not> (fst pe \<in> set ps1 \<and> file_old now (snd pe))) (fs s)\<rparr>)"
proof -
  let ?F = "filter (\<lambda>pe. \<not> (fst pe \<in> set ps1 \<and> file_old now (snd pe))) (fs s)"
  from dps have d1: "distinct ps1" and notin: "p0 \<notin> set ps1" by auto
  from sweep_files_ok[OF d1 d ok, of c] obtain c' where
    run1: "sweep_files ext now ps1 c s = (Inr c', s\<lparr>fs := ?F\<rparr>)" by blast
  have "map_of ?F p0 = Some e0"
    using map_of_filter_distinct[OF d p0, of "\<lambda>pe. \<not> (fst pe \<in> set ps1 \<and> file_old now (snd pe))"]
      notin by simp
  then have "sweep_files ext now (p0 # ps2) c' (s\<lparr>fs := ?F\<rparr>) = (Inl (Exception m), s\<lparr>fs := ?F\<rparr>)"
    using old refused by (simp add: file_old_def unlink_def)
  with run1 show ?thesis by (simp add: sweep_files_append)
qed

lemma sweep_dirs_scan:
  assumes d: "distinct (map fst (fs s))"
  shows "sweep_dirs ext now [OUTPUT_DIR, TEMP_DIR] c s = sweep_files ext now (scan s) c s"
proof -
  let ?ps1 = "glob OUTPUT_DIR s"
  obtain x s1 where a: "sweep_files ext now ?ps1 c s = (x, s1)" by force
  show ?thesis
  proof (cases x)
    case (Inl e)
    with a show ?thesis by (simp add: scan_def sweep_files_append)
  next
    case (Inr c1)
    have d1: "distinct ?ps1" using d by (simp add: glob_def)
    from sweep_files_returned[OF a[unfolded Inr] d1]
    have ok1: "\<forall>p\<in>set ?ps1. \<forall>e. map_of (fs s) p = Some e \<longrightarrow> file_old now e \<longrightarrow>
               unlink_error ext p = None" .
    from sweep_files_ok[OF d1 d ok1, of c] a
    have s1: "s1 = s\<lparr>fs := filter (\<lambda>pe. \<not> (fst pe \<in> set ?ps1 \<and> file_old now (snd pe))) (fs s)\<rparr>"
      by auto
    have "glob TEMP_DIR s1 = glob TEMP_DIR s"
      unfolding s1 glob_def
      by (simp add: filter_map filter_filter comp_def) (rule arg_cong[where f="map fst"], rule filter_cong, auto)
    with a Inr show ?thesis
      by (auto simp: scan_def sweep_files_append split: prod.splits sum.splits)
  qed
qed

lemma distinct_scan: "distinct (map fst (fs s)) \<Longrightarrow> distinct (scan s)"
  by (auto simp: scan_def glob_def)

lemma cleanup_files_refused:
  assumes d: "distinct (map fst (fs s))"
      and sc: "scan s = ps1 @ p0 # ps2"
      and ok: "\<forall>p\<in>set ps1. \<forall>e. map_of (fs s) p = Some e \<longrightarrow> file_old (clock s) e \<longrightarrow>
                 unlink_error ext p = None"
      and p0: "map_of (fs s) p0 = Some e0" and old: "file_old (clock s) e0"
      and refused: "unlink_error ext p0 = Some m"
  shows "cleanup_files ext s =
           (Inl (HTTPException 500 (''Cleanup failed: '' @ m)),
            s\<lparr>fs := filter (\<lambda>pe. \<not> (fst pe \<in> set ps1 \<and> file_old (clock s) (snd pe))) (fs s)\<rparr>)"
proof -
  have dps: "distinct (ps1 @ p0 # ps2)" using distinct_scan[OF d] sc by simp
  from sweep_files_refused[OF dps d ok p0 old refused, of 0]
  show ?thesis
    unfolding cleanup_files_def sweep_dirs_scan[OF d] sc by (simp add: str_exn_def)
qed


lemma cleanup_files_error_shape:
  "fst (cleanup_files ext s) = Inl x \<Longrightarrow>
     \<exists>e. x = HTTPException 500 (''Cleanup failed: '' @ str_exn ext e)"
  by (auto simp: cleanup_files_def split: prod.splits sum.splits)

text \<open>
  \<^bold>\<open>C6\<close>.  In a file system with one entry per path, \<open>/cleanup\<close> visits
  exactly the paths of the output and of the scratch directory.  When the system refuses
  no deletion of an expired file (a regular file of these two directories whose age at
  the clock reading exceeds 3600 seconds), it returns the number of expired files and
  leaves exactly the other entries, unchanged and in order: a file is deleted if and only
  if it is expired.  When the deletion of an expired file is refused, the sweep stops at
  the first such file in visiting order with status 500 and the detail
  \<open>"Cleanup failed: "\<close> followed by the message of the refusal: no count is
  returned, the old files visited before it are gone, and every other entry, the refused
  file and the old files after it included, is left in place.
\<close>

theorem C6_sweeper:
  assumes d: "distinct (map fst (fs s))"
  shows "((\<forall>pe\<in>set (fs s). expired (clock s) pe \<longrightarrow> unlink_error ext (fst pe) = None) \<longrightarrow>
            cleanup_files ext s =
              (Inr (Cleaned_up (length (filter (expired (clock s)) (fs s)))),
               s\<lparr>fs := filter (\<lambda>pe. \<not> expired (clock s) pe) (fs s)\<rparr>)
            \<and> (\<forall>p e. map_of (fs s) p = Some e \<longrightarrow>
                  map_of (fs (snd (cleanup_files ext s))) p =
                    (if expired (clock s) (p, e) then None else Some e)))
       \<and> (\<forall>ps1 p0 ps2 e0 m.
             scan s = ps1 @ p0 # ps2 \<longrightarrow>
             (\<forall>p\<in>set ps1. \<forall>e. map_of (fs s) p = Some e \<longrightarrow> file_old (clock s) e \<longrightarrow>
                unlink_error ext p = None) \<longrightarrow>
             map_of (fs s) p0 = Some e0 \<longrightarrow> file_old (clock s) e0 \<longrightarrow>
             unlink_error ext p0 = Some m \<longrightarrow>
             cleanup_files ext s =
               (Inl (HTTPException 500 (''Cleanup failed: '' @ m)),
                s\<lparr>fs := filter (\<lambda>pe. \<not> (fst pe \<in> set ps1 \<and> file_old (clock s) (snd pe)))
                             (fs s)\<rparr>))
       \<and> ((\<exists>pe\<in>set (fs s). expired (clock s) pe \<and> unlink_error ext (fst pe) \<noteq> None) \<longrightarrow>
             (\<exists>e. fst (cleanup_files ext s) =
                    Inl (HTTPException 500 (''Cleanup failed: '' @ str_exn ext e))))"
proof (intro conjI impI allI)
  assume ok: "\<forall>pe\<in>set (fs s). expired (clock s) pe \<longrightarrow> unlink_error ext (fst pe) = None"
  show run: "cleanup_files ext s =
              (Inr (Cleaned_up (length (filter (expired (clock s)) (fs s)))),
               s\<lparr>fs := filter (\<lambda>pe. \<not> expired (clock s) pe) (fs s)\<rparr>)"
    using d ok by (rule cleanup_files_ok)
  fix p e assume "map_of (fs s) p = Some e"
  then show "map_of (fs (snd (cleanup_files ext s))) p =
                    (if expired (clock s) (p, e) then None else Some e)"
    unfolding run using map_of_filter_distinct[OF d] by simp
next
  fix ps1 p0 ps2 e0 m
  assume "scan s = ps1 @ p0 # ps2"
     and "\<forall>p\<in>set ps1. \<forall>e. map_of (fs s) p = Some e \<longrightarrow> file_old (clock s) e \<longrightarrow>
                unlink_error ext p = None"
     and "map_of (fs s) p0 = Some e0" and "file_old (clock s) e0"
     and "unlink_error ext p0 = Some m"
  with d show "cleanup_files ext s =
               (Inl (HTTPException 500 (''Cleanup failed: '' @ m)),
                s\<lparr>fs := filter (\<lambda>pe. \<not> (fst pe \<in> set ps1 \<and> file_old (clock s) (snd pe)))
                             (fs s)\<rparr>)"
    by (rule cleanup_files_refused)
next
  assume bad: "\<exists>pe\<in>set (fs s). expired (clock s) pe \<and> unlink_error ext (fst pe) \<noteq> None"
  show "\<exists>e. fst (cleanup_files ext s) =
                    Inl (HTTPException 500 (''Cleanup failed: '' @ str_exn ext e))"
  proof (cases "fst (cleanup_files ext s)")
    case (Inl x)
    with cleanup_files_error_shape[OF Inl] show ?thesis by auto
  next
    case (Inr r)
    then have "cleanup_files ext s = (Inr r, snd (cleanup_files ext s))"
      by (metis prod.collapse)
    from cleanup_files_returned[OF d this] bad have False by auto
    then show ?thesis ..
  qed
qed

theorem C6_sweeper_witness:
  "distinct (map fst (fs s_sweep))
   \<and> cleanup_files ext0 s_sweep =
       (Inr (Cleaned_up 3),
        s_sweep\<lparr>fs :=
          [((OUTPUT_DIR, ''new.ply''), \<lparr>is_file = True, st_mtime = 9000, data = ''n''\<rparr>),
           ((OUTPUT_DIR, ''sub''), \<lparr>is_file = False, st_mtime = 0, data = []\<rparr>),
           ((UPLOAD_DIR, ''keep.png''), \<lparr>is_file = True, st_mtime = 0, data = ''k''\<rparr>)]\<rparr>)
   \<and> scan s_sweep =
       [] @ (OUTPUT_DIR, ''a.ply'') #
         [(OUTPUT_DIR, ''b.ply''), (OUTPUT_DIR, ''new.ply''), (OUTPUT_DIR, ''sub''),
          (TEMP_DIR, ''old.png'')]
   \<and> unlink_error ext_locked (OUTPUT_DIR, ''a.ply'') = Some ''Permission denied''
   \<and> cleanup_files ext_locked s_sweep =
       (Inl (HTTPException 500 ''Cleanup failed: Permission denied''), s_sweep)"
proof -
  have d: "distinct (map fst (fs s_sweep))" by (simp add: s_sweep_def)
  have ok: "\<forall>pe\<in>set (fs s_sweep). expired (clock s_sweep) pe \<longrightarrow>
              unlink_error ext0 (fst pe) = None"
    by (simp add: ext0_def)
  have sc: "scan s_sweep =
       [] @ (OUTPUT_DIR, ''a.ply'') #
         [(OUTPUT_DIR, ''b.ply''), (OUTPUT_DIR, ''new.ply''), (OUTPUT_DIR, ''sub''),
          (TEMP_DIR, ''old.png'')]"
    by (simp add: scan_def glob_def s_sweep_def)
  have ok1: "\<forall>p\<in>set []. \<forall>e. map_of (fs s_sweep) p = Some e \<longrightarrow> file_old (clock s_sweep) e \<longrightarrow>
                unlink_error ext_locked p = None" by simp
  have p0: "map_of (fs s_sweep) (OUTPUT_DIR, ''a.ply'') =
              Some \<lparr>is_file = True, st_mtime = 0, data = ''a''\<rparr>"
    by (simp add: s_sweep_def)
  have old: "file_old (clock s_sweep) \<lparr>is_file = True, st_mtime = 0, data = ''a''\<rparr>"
    by (simp add: file_old_def s_sweep_def)
  have refused: "unlink_error ext_locked (OUTPUT_DIR, ''a.ply'') = Some ''Permission denied''"
    by (simp add: ext_locked_def)
  from C6_sweeper[OF d, of ext0] ok
  have a: "cleanup_files ext0 s_sweep =
              (Inr (Cleaned_up (length (filter (expired (clock s_sweep)) (fs s_sweep)))),
               s_sweep\<lparr>fs := filter (\<lambda>pe. \<not> expired (clock s_sweep) pe) (fs s_sweep)\<rparr>)"
    by blast
  from C6_sweeper[OF d, of ext_locked] sc ok1 p0 old refused
  have b: "cleanup_files ext_locked s_sweep =
               (Inl (HTTPException 500 (''Cleanup failed: '' @ ''Permission denied'')),
                s_sweep\<lparr>fs := filter (\<lambda>pe. \<not> (fst pe \<in> set [] \<and> file_old (clock s_sweep) (snd pe)))
                             (fs s_sweep)\<rparr>)"
    by blast
  have a': "cleanup_files ext0 s_sweep =
       (Inr (Cleaned_up 3),
        s_sweep\<lparr>fs :=
          [((OUTPUT_DIR, ''new.ply''), \<lparr>is_file = True, st_mtime = 9000, data = ''n''\<rparr>),
           ((OUTPUT_DIR, ''sub''), \<lparr>is_file = False, st_mtime = 0, data = []\<rparr>),
           ((UPLOAD_DIR, ''keep.png''), \<lparr>is_file = True, st_mtime = 0, data = ''k''\<rparr>)]\<rparr>)"
    using a by (simp add: s_sweep_def expired_def file_old_def)
  have b': "cleanup_files ext_locked s_sweep =
       (Inl (HTTPException 500 ''Cleanup failed: Permission denied''), s_sweep)"
    using b by simp
  from d a' sc refused b' show ?thesis by blast
qed

text \<open>
  When the system refuses a deletion, the sweep stops with the error of
  \<open>/cleanup\<close>: no count is returned and the old file \<open>outputs/b.ply\<close>, listed
  after the refused one, stays.
\<close>

theorem C6_sweeper_counterexample:
  "fst (cleanup_files ext_locked s_sweep) =
     Inl (HTTPException 500 ''Cleanup failed: Permission denied'')
   \<and> expired (clock s_sweep)
        ((OUTPUT_DIR, ''b.ply''), \<lparr>is_file = True, st_mtime = 100, data = ''b''\<rparr>)
   \<and> map_of (fs (snd (cleanup_files ext_locked s_sweep))) (OUTPUT_DIR, ''b.ply'') =
       Some \<lparr>is_file = True, st_mtime = 100, data = ''b''\<rparr>"
  by (simp add: cleanup_files_def glob_def unlink_def str_exn_def ext_locked_def ext0_def
        s_sweep_def expired_def file_old_def)

text \<open>
  \<^bold>\<open>C9\<close>.  After an invocation of \<open>/cleanup\<close> that returned its count, a
  second invocation, with no file created in between and at a clock reading at which no
  file of the first state is expired that was not expired at the first reading, deletes
  nothing: it returns the count 0 and leaves the state as it found it.
\<close>

theorem C9_second_sweep:
  assumes d: "distinct (map fst (fs s))"
      and first: "cleanup_files ext s = (Inr r, s1)"
      and steady: "\<forall>pe\<in>set (fs s). expired t2 pe \<longrightarrow> expired (clock s) pe"
  shows "cleanup_files ext (s1\<lparr>clock := t2\<rparr>) = (Inr (Cleaned_up 0), s1\<lparr>clock := t2\<rparr>)"
proof -
  let ?F = "filter (\<lambda>pe. \<not> expired (clock s) pe) (fs s)"
  from cleanup_files_returned[OF d first]
  have ok: "\<forall>pe\<in>set (fs s). expired (clock s) pe \<longrightarrow> unlink_error ext (fst pe) = None" .
  from cleanup_files_ok[OF d ok] first have s1: "s1 = s\<lparr>fs := ?F\<rparr>" by simp
  let ?s2 = "s1\<lparr>clock := t2\<rparr>"
  have fs2: "fs ?s2 = ?F" and c2: "clock ?s2 = t2" by (simp_all add: s1)
  have none: "\<forall>pe\<in>set ?F. \<not> expired t2 pe" using steady by auto
  have d2: "distinct (map fst (fs ?s2))" unfolding fs2 using d by (simp add: distinct_map_filter)
  have ok2: "\<forall>pe\<in>set (fs ?s2). expired (clock ?s2) pe \<longrightarrow> unlink_error ext (fst pe) = None"
    unfolding fs2 c2 using none by blast
  have keep: "filter (\<lambda>pe. \<not> expired t2 pe) ?F = ?F"
    unfolding filter_id_conv using none by blast
  have gone: "filter (expired t2) ?F = []"
    unfolding filter_empty_conv using none by blast
  from cleanup_files_ok[OF d2 ok2] show ?thesis
    unfolding fs2 c2 keep gone by (simp add: s1)
qed

theorem C9_second_sweep_witness:
  "distinct (map fst (fs s_sweep))
   \<and> fst (cleanup_files ext0 s_sweep) = Inr (Cleaned_up 3)
   \<and> cleanup_files ext0 ((snd (cleanup_files ext0 s_sweep))\<lparr>clock := 10001\<rparr>) =
       (Inr (Cleaned_up 0), (snd (cleanup_files ext0 s_sweep))\<lparr>clock := 10001\<rparr>)"
proof -
  have d: "distinct (map fst (fs s_sweep))" by (simp add: s_sweep_def)
  have r: "fst (cleanup_files ext0 s_sweep) = Inr (Cleaned_up 3)"
    by (simp add: cleanup_files_def glob_def unlink_def ext0_def s_sweep_def)
  then have first: "cleanup_files ext0 s_sweep = (Inr (Cleaned_up 3), snd (cleanup_files ext0 s_sweep))"
    by (metis prod.collapse)
  have steady: "\<forall>pe\<in>set (fs s_sweep). expired 10001 pe \<longrightarrow> expired (clock s_sweep) pe"
    by (simp add: s_sweep_def expired_def file_old_def)
  from C9_second_sweep[OF d first steady] d r show ?thesis by simp
qed

text \<open>
  The second invocation reads the clock again: a file that is exactly 3600 seconds old
  at the first reading is kept by the first invocation and deleted by the second, one
  second later.
\<close>

theorem C9_second_sweep_counterexample:
  "cleanup_files ext0 s_edge = (Inr (Cleaned_up 0), s_edge)
   \<and> cleanup_files ext0 (s_edge\<lparr>clock := 3601\<rparr>) =
       (Inr (Cleaned_up 1), s_edge\<lparr>clock := 3601, fs := []\<rparr>)"
  by (simp add: cleanup_files_def glob_def unlink_def ext0_def s_edge_def)

subsection \<open>Persisted files and identifiers\<close>

text \<open>
  A reconstruction never removes a path that exists, whether it returns or raises; the
  identifier it returns is the next value of \<open>uuid.uuid4()\<close>; and the
  \<open>finally\<close> loop of an endpoint touches only the scratch paths it is given.
\<close>

lemma write_file_keeps:
  "exists_path s p \<Longrightarrow> exists_path (write_file q b s) p"
  by (simp add: exists_path_def write_file_def AList.update_conv')

lemma gaussian_block_keeps:
  "gaussian_block ext fmts outs uid rf s = (r, s') \<Longrightarrow> exists_path s p \<Longrightarrow> exists_path s' p"
  by (auto simp: gaussian_block_def write_file_keeps split: sum.splits option.splits if_splits)

lemma mesh_block_keeps:
  "mesh_block ext fmts outs uid rf s = (rf', s') \<Longrightarrow> exists_path s p \<Longrightarrow> exists_path s' p"
  by (auto simp: mesh_block_def print_line_def exists_path_def write_file_def
      AList.update_conv' split: sum.splits option.splits if_splits)

lemma generate_3d_model_keeps:
  assumes "generate_3d_model ext ip fmt s = (r, s')" and "exists_path s p"
  shows "exists_path s' p"
  using assms(1)
proof (cases rule: gen3d_cases)
  case (early e)
  with assms(2) show ?thesis by (simp add: exists_path_def)
next
  case (gaussian_failed outs s3 e e')
  from assms(2) gaussian_failed(1) have "exists_path s3 p" by (simp add: exists_path_def)
  with gaussian_failed(2) show ?thesis by (rule gaussian_block_keeps)
next
  case (returned outs s3 s4 rf rf')
  from assms(2) returned(1) have "exists_path s3 p" by (simp add: exists_path_def)
  with returned(2) have "exists_path s4 p" by (rule gaussian_block_keeps)
  with returned(3) show ?thesis by (rule mesh_block_keeps)
qed

lemma generate_3d_model_next_draw:
  assumes "generate_3d_model ext ip fmt s = (Inr res, s')"
  shows "model_id res = uuid4_draw ext (drawn s)"
  using gen3d_result[OF assms] by simp

lemma cleanup_temp_elsewhere:
  "p \<notin> set ps \<Longrightarrow> map_of (fs (cleanup_temp ext ps s)) p = map_of (fs s) p"
  by (induction ps arbitrary: s)
     (auto simp: exists_path_def unlink_def AList.delete_conv' split: option.splits)

subsection \<open>Uploads and scratch files\<close>

lemmas world_defs = ext0_def s0_def response0_def outputs0_def up_png_def up_text_def

lemmas model_defs = generate_3d_model_def generate_3d_model_try_def gaussian_block_def
  mesh_block_def select_formats_def first_output_def Image_open_def prim_defs
  generate_toy_image_def generate_toy_image_try_def parts_of_def
  analyze_person_image_def analyze_toy_style_def description_of_def str_exn_def
  io_bind_def io_return_def io_print_def

lemma cleanup_temp_stays_absent:
  "map_of (fs s) p = None \<Longrightarrow> map_of (fs (cleanup_temp ext ps s)) p = None"
  by (induction ps arbitrary: s)
     (auto simp: exists_path_def unlink_def AList.delete_conv' split: option.splits)

lemma cleanup_temp_absent:
  "p \<in> set ps \<Longrightarrow> unlink_error ext p = None \<Longrightarrow> map_of (fs (cleanup_temp ext ps s)) p = None"
proof (induction ps arbitrary: s)
  case Nil
  then show ?case by simp
next
  case (Cons q ps)
  show ?case
  proof (cases "p = q")
    case True
    let ?s' = "if exists_path s q then
          (case unlink ext q s of (Inl e, s') \<Rightarrow> s' | (Inr u, s') \<Rightarrow> s')
        else s"
    have "map_of (fs ?s') p = None"
      using True Cons.prems(2)
      by (auto simp: exists_path_def unlink_def AList.delete_conv' split: option.splits)
    then show ?thesis by (simp add: cleanup_temp_stays_absent)
  next
    case False
    with Cons show ?thesis by simp
  qed
qed

lemma generate_toy_temp_files:
  "snd (fst (generate_toy_try ext person_image style_guide prompt output_format s)) =
     (case content_type person_image of
        None \<Rightarrow> []
      | Some pct \<Rightarrow>
          if \<not> startswith pct ''image/'' then []
          else (case content_type style_guide of
                  None \<Rightarrow> []
                | Some sct \<Rightarrow>
                    if \<not> startswith sct ''image/'' then []
                    else [person_temp_path (uuid4_draw ext (drawn s)),
                          style_temp_path (uuid4_draw ext (Suc (drawn s)))]))"
  by (simp add: generate_toy_try_def uuid4_def split: option.splits prod.splits)

lemma generate_toy_rejects_person:
  assumes "content_type person_image = Some pct" and "\<not> startswith pct ''image/''"
  shows "generate_toy_endpoint ext person_image style_guide prompt output_format s =
           (Inl (HTTPException 400 ''Person file must be an image''), s)"
  using assms
  by (simp add: generate_toy_endpoint_def generate_toy_try_def generate_toy_except_def)

lemma generate_toy_rejects_style:
  assumes "content_type person_image = Some pct" and "startswith pct ''image/''"
      and "content_type style_guide = Some sct" and "\<not> startswith sct ''image/''"
  shows "generate_toy_endpoint ext person_image style_guide prompt output_format s =
           (Inl (HTTPException 400 ''Style guide file must be an image''), s)"
  using assms
  by (simp add: generate_toy_endpoint_def generate_toy_try_def generate_toy_except_def)

text \<open>
  \<^bold>\<open>C1\<close>.  Only \<open>/generate-toy\<close> looks at the declared media type (the two
  lemmas above: a non-image upload is answered with status 400 and the state is left
  as it was, so no model was called and no file written).  \<open>/generate-image-only\<close>
  and \<open>/image-to-3d\<close> do not: with uploads declared \<open>text/plain\<close> both run
  their models, write to the output directory and answer with success.
\<close>

theorem C1_unvalidated_uploads:
  "content_type up_text = Some ''text/plain''
   \<and> \<not> startswith ''text/plain'' ''image/''
   \<and> fst (generate_image_only ext0 up_text up_text ''a toy'' s0) =
       Inr \<lparr>img_success = True, img_toy_image = ''outputs/generated_toy_uuu.png'',
            img_person_description = ''a small figure'',
            img_style_description = ''a small figure''\<rparr>
   \<and> length (model_calls (snd (generate_image_only ext0 up_text up_text ''a toy'' s0))) = 3
   \<and> exists_path (snd (generate_image_only ext0 up_text up_text ''a toy'' s0))
        (toy_output_path ''uuu'')
   \<and> fst (image_to_3d ext0 up_text ''mesh'' s0) =
       Inr \<lparr>success = True, model_id = ''uu'',
            files = [(''glb'', ''outputs/model_uu.glb'')], formats = [''mesh'']\<rparr>
   \<and> model_calls (snd (image_to_3d ext0 up_text ''mesh'' s0)) =
       [TrellisRun (PIL_Image ''notes'') [''mesh'']]
   \<and> exists_path (snd (image_to_3d ext0 up_text ''mesh'' s0)) (glb_path ''uu'')"
  by (simp add: generate_image_only_def image_only_pipeline_def image_to_3d_def exists_path_def
        unlink_def model_defs world_defs startswith_def strip_def replace_newlines_def
        py_isspace_def person_temp_path_def style_temp_path_def input_temp_path_def
        toy_output_path_def glb_path_def str_path_def AList.update_conv')

text \<open>No function of the service but \<open>unlink\<close> reads \<open>unlink_error\<close>.\<close>

lemma Image_open_unlink_error [simp]:
  "Image_open (ext\<lparr>unlink_error := g\<rparr>) = Image_open ext"
  by (simp add: fun_eq_iff Image_open_def
        cong: option.case_cong sum.case_cong prod.case_cong exn.case_cong if_cong)

lemma str_exn_unlink_error [simp]:
  "str_exn (ext\<lparr>unlink_error := g\<rparr>) = str_exn ext"
  by (simp add: fun_eq_iff str_exn_def
        cong: option.case_cong sum.case_cong prod.case_cong exn.case_cong if_cong)

lemma generate_content_call_unlink_error [simp]:
  "generate_content_call (ext\<lparr>unlink_error := g\<rparr>) = generate_content_call ext"
  by (simp add: fun_eq_iff generate_content_call_def
        cong: option.case_cong sum.case_cong prod.case_cong exn.case_cong if_cong)

lemma trellis_call_unlink_error [simp]:
  "trellis_call (ext\<lparr>unlink_error := g\<rparr>) = trellis_call ext"
  by (simp add: fun_eq_iff trellis_call_def
        cong: option.case_cong sum.case_cong prod.case_cong exn.case_cong if_cong)

lemma uuid4_unlink_error [simp]:
  "uuid4 (ext\<lparr>unlink_error := g\<rparr>) = uuid4 ext"
  by (simp add: fun_eq_iff uuid4_def
        cong: option.case_cong sum.case_cong prod.case_cong exn.case_cong if_cong)

lemma analyze_person_image_unlink_error [simp]:
  "analyze_person_image (ext\<lparr>unlink_error := g\<rparr>) = analyze_person_image ext"
  by (simp add: fun_eq_iff analyze_person_image_def
        cong: option.case_cong sum.case_cong prod.case_cong exn.case_cong if_cong)

lemma analyze_toy_style_unlink_error [simp]:
  "analyze_toy_style (ext\<lparr>unlink_error := g\<rparr>) = analyze_toy_style ext"
  by (simp add: fun_eq_iff analyze_toy_style_def
        cong: option.case_cong sum.case_cong prod.case_cong exn.case_cong if_cong)

lemma save_first_inline_unlink_error [simp]:
  "save_first_inline (ext\<lparr>unlink_error := g\<rparr>) ps s = save_first_inline ext ps s"
  by (induction ps arbitrary: s)
     (simp_all cong: option.case_cong sum.case_cong prod.case_cong)

lemma generate_toy_image_unlink_error [simp]:
  "generate_toy_image (ext\<lparr>unlink_error := g\<rparr>) = generate_toy_image ext"
  by (simp add: fun_eq_iff generate_toy_image_def generate_toy_image_try_def
        cong: option.case_cong sum.case_cong prod.case_cong exn.case_cong if_cong)

lemma gaussian_block_unlink_error [simp]:
  "gaussian_block (ext\<lparr>unlink_error := g\<rparr>) = gaussian_block ext"
  by (simp add: fun_eq_iff gaussian_block_def
        cong: option.case_cong sum.case_cong prod.case_cong exn.case_cong if_cong)

lemma mesh_block_unlink_error [simp]:
  "mesh_block (ext\<lparr>unlink_error := g\<rparr>) = mesh_block ext"
  by (simp add: fun_eq_iff mesh_block_def
        cong: option.case_cong sum.case_cong prod.case_cong exn.case_cong if_cong)

lemma generate_3d_model_unlink_error [simp]:
  "generate_3d_model (ext\<lparr>unlink_error := g\<rparr>) = generate_3d_model ext"
  by (simp add: fun_eq_iff generate_3d_model_def generate_3d_model_try_def
        cong: option.case_cong sum.case_cong prod.case_cong exn.case_cong if_cong)

lemma toy_pipeline_unlink_error [simp]:
  "toy_pipeline (ext\<lparr>unlink_error := g\<rparr>) = toy_pipeline ext"
  by (simp add: fun_eq_iff toy_pipeline_def
        cong: option.case_cong sum.case_cong prod.case_cong exn.case_cong if_cong)

lemma image_only_pipeline_unlink_error [simp]:
  "image_only_pipeline (ext\<lparr>unlink_error := g\<rparr>) = image_only_pipeline ext"
  by (simp add: fun_eq_iff image_only_pipeline_def
        cong: option.case_cong sum.case_cong prod.case_cong exn.case_cong if_cong)

lemma generate_toy_try_unlink_error [simp]:
  "generate_toy_try (ext\<lparr>unlink_error := g\<rparr>) = generate_toy_try ext"
  by (simp add: fun_eq_iff generate_toy_try_def
        cong: option.case_cong sum.case_cong prod.case_cong exn.case_cong if_cong)

lemma endpoints_outcome_unlink_error:
  "fst (generate_toy_endpoint (ext\<lparr>unlink_error := g\<rparr>) person_image style_guide prompt
          output_format s) =
     fst (generate_toy_endpoint ext person_image style_guide prompt output_format s)"
  "fst (generate_image_only (ext\<lparr>unlink_error := g\<rparr>) person_image style_guide prompt s) =
     fst (generate_image_only ext person_image style_guide prompt s)"
  "fst (image_to_3d (ext\<lparr>unlink_error := g\<rparr>) img output_format s) =
     fst (image_to_3d ext img output_format s)"
  by (simp_all add: generate_toy_endpoint_def generate_image_only_def image_to_3d_def
        split: prod.splits del: cleanup_temp.simps)


lemma analyze_person_image_fs:
  "analyze_person_image ext ip s = (r, s') \<Longrightarrow> fs s' = fs s"
  by (auto simp: analyze_person_image_def generate_content_call_def
      split: sum.splits prod.splits)

lemma analyze_toy_style_fs:
  "analyze_toy_style ext ip s = (r, s') \<Longrightarrow> fs s' = fs s"
  by (auto simp: analyze_toy_style_def generate_content_call_def
      split: sum.splits prod.splits)

lemma save_first_inline_keeps:
  "save_first_inline ext ps s = (r, s') \<Longrightarrow> exists_path s p \<Longrightarrow> exists_path s' p"
  by (induction ps arbitrary: s)
     (auto simp: uuid4_def exists_path_def write_file_def AList.update_conv'
      split: option.splits sum.splits)

lemma generate_toy_image_keeps:
  "generate_toy_image ext u c d ip s = (r, s') \<Longrightarrow> exists_path s p \<Longrightarrow> exists_path s' p"
proof -
  assume run: "generate_toy_image ext u c d ip s = (r, s')" and ex: "exists_path s p"
  have pre: "\<And>t. fs t = fs s \<Longrightarrow> exists_path t p"
    using ex by (simp add: exists_path_def)
  from run show "exists_path s' p"
    by (auto simp: generate_toy_image_def generate_toy_image_try_def generate_content_call_def
          print_line_def pre
        split: sum.splits prod.splits option.splits
        dest!: save_first_inline_keeps[where p = p])
qed

lemma cleanup_temp_refused:
  "unlink_error ext p = Some m \<Longrightarrow> exists_path s p \<Longrightarrow> exists_path (cleanup_temp ext ps s) p"
proof (induction ps arbitrary: s)
  case Nil
  then show ?case by simp
next
  case (Cons q ps)
  let ?s' = "if exists_path s q then
          (case unlink ext q s of (Inl e, s') \<Rightarrow> s' | (Inr u, s') \<Rightarrow> s')
        else s"
  have "exists_path ?s' p"
  proof (cases "p = q")
    case True
    with Cons.prems show ?thesis
      by (auto simp: exists_path_def unlink_def split: option.splits)
  next
    case False
    with Cons.prems show ?thesis
      by (auto simp: exists_path_def unlink_def AList.delete_conv' split: option.splits)
  qed
  from Cons.IH[OF Cons.prems(1) this] show ?case by simp
qed

lemma toy_pipeline_keeps:
  assumes "toy_pipeline ext pp sp prompt fmt s = (r, s')" and "exists_path s p"
  shows "exists_path s' p"
proof -
  have pre: "\<And>t. fs t = fs s \<Longrightarrow> exists_path t p"
    using assms(2) by (simp add: exists_path_def)
  have pre': "\<And>t t'. exists_path t p \<Longrightarrow> fs t' = fs t \<Longrightarrow> exists_path t' p"
    by (simp add: exists_path_def)
  from assms(1) assms(2)[unfolded exists_path_def] show ?thesis
    apply (simp add: toy_pipeline_def io_bind_def io_print_def io_return_def print_line_def
        split: sum.splits prod.splits)
    apply (auto dest!: analyze_person_image_fs analyze_toy_style_fs
        generate_toy_image_keeps[where p = p] generate_3d_model_keeps[where p = p]
        simp: pre exists_path_def)
    done
qed


lemma image_only_pipeline_keeps:
  assumes "image_only_pipeline ext pp sp prompt s = (r, s')" and "exists_path s p"
  shows "exists_path s' p"
  using assms(1) assms(2)[unfolded exists_path_def]
  apply (simp add: image_only_pipeline_def io_bind_def io_return_def
      split: sum.splits prod.splits)
  apply (auto dest!: analyze_person_image_fs analyze_toy_style_fs
      generate_toy_image_keeps[where p = p] simp: exists_path_def)
  done

lemma scratch_written:
  "exists_path (write_file q b (write_file q' b' s)) q'"
  "exists_path (write_file q b s) q"
  by (simp_all add: exists_path_def write_file_def AList.update_conv')

lemma generate_toy_endpoint_refused:
  assumes named: "p \<in> set (snd (fst (generate_toy_try ext person_image style_guide prompt
                                          output_format s)))"
      and refused: "unlink_error ext p = Some m"
  shows "exists_path (snd (generate_toy_endpoint ext person_image style_guide prompt
                             output_format s)) p"
proof -
  let ?u1 = "uuid4_draw ext (drawn s)" and ?u2 = "uuid4_draw ext (Suc (drawn s))"
  let ?s4 = "write_file (style_temp_path ?u2) (content style_guide)
               (write_file (person_temp_path ?u1) (content person_image)
                  (s\<lparr>drawn := Suc (Suc (drawn s))\<rparr>))"
  obtain r s' where run: "toy_pipeline ext (person_temp_path ?u1) (style_temp_path ?u2) prompt
                            output_format ?s4 = (r, s')" by force
  from named have ne: "snd (fst (generate_toy_try ext person_image style_guide prompt
                                   output_format s)) \<noteq> []" by auto
  obtain pct where v1: "content_type person_image = Some pct"
    using ne by (cases "content_type person_image") (auto simp: generate_toy_temp_files)
  have v2: "startswith pct ''image/''"
    using ne v1 by (auto simp: generate_toy_temp_files split: if_splits)
  obtain sct where v3: "content_type style_guide = Some sct"
    using ne v1 v2 by (cases "content_type style_guide") (auto simp: generate_toy_temp_files)
  have v4: "startswith sct ''image/''"
    using ne v1 v2 v3 by (auto simp: generate_toy_temp_files split: if_splits)
  note valid = v1 v2 v3 v4
  with named have p: "p = person_temp_path ?u1 \<or> p = style_temp_path ?u2"
    by (simp add: generate_toy_temp_files)
  have "exists_path ?s4 (person_temp_path ?u1)" by (rule scratch_written(1))
  moreover have "exists_path ?s4 (style_temp_path ?u2)" by (rule scratch_written(2))
  ultimately have "exists_path ?s4 p" using p by auto
  with run have "exists_path s' p" by (rule toy_pipeline_keeps)
  then have "exists_path (cleanup_temp ext [person_temp_path ?u1, style_temp_path ?u2] s') p"
    by (rule cleanup_temp_refused[OF refused])
  moreover have "snd (generate_toy_endpoint ext person_image style_guide prompt output_format s) =
      cleanup_temp ext [person_temp_path ?u1, style_temp_path ?u2] s'"
    using valid run
    by (simp add: generate_toy_endpoint_def generate_toy_try_def uuid4_def
        del: cleanup_temp.simps)
  ultimately show ?thesis by simp
qed

lemma generate_image_only_refused:
  assumes named: "p \<in> {person_temp_path (uuid4_draw ext (drawn s)),
                         style_temp_path (uuid4_draw ext (Suc (drawn s)))}"
      and refused: "unlink_error ext p = Some m"
  shows "exists_path (snd (generate_image_only ext person_image style_guide prompt s)) p"
proof -
  let ?u1 = "uuid4_draw ext (drawn s)" and ?u2 = "uuid4_draw ext (Suc (drawn s))"
  let ?s4 = "write_file (style_temp_path ?u2) (content style_guide)
               (write_file (person_temp_path ?u1) (content person_image)
                  (s\<lparr>drawn := Suc (Suc (drawn s))\<rparr>))"
  obtain r s' where run: "image_only_pipeline ext (person_temp_path ?u1) (style_temp_path ?u2)
                            prompt ?s4 = (r, s')" by force
  have "exists_path ?s4 (person_temp_path ?u1)" by (rule scratch_written(1))
  moreover have "exists_path ?s4 (style_temp_path ?u2)" by (rule scratch_written(2))
  ultimately have "exists_path ?s4 p" using named by auto
  with run have "exists_path s' p" by (rule image_only_pipeline_keeps)
  then have "exists_path (cleanup_temp ext [person_temp_path ?u1, style_temp_path ?u2] s') p"
    by (rule cleanup_temp_refused[OF refused])
  moreover have "snd (generate_image_only ext person_image style_guide prompt s) =
      cleanup_temp ext [person_temp_path ?u1, style_temp_path ?u2] s'"
    using run by (simp add: generate_image_only_def uuid4_def del: cleanup_temp.simps)
  ultimately show ?thesis by simp
qed

lemma image_to_3d_refused:
  assumes refused: "unlink_error ext (input_temp_path (uuid4_draw ext (drawn s))) = Some m"
  shows "exists_path (snd (image_to_3d ext img output_format s))
           (input_temp_path (uuid4_draw ext (drawn s)))"
proof -
  let ?p = "input_temp_path (uuid4_draw ext (drawn s))"
  let ?s1 = "write_file ?p (content img) (s\<lparr>drawn := Suc (drawn s)\<rparr>)"
  obtain r s' where run: "generate_3d_model ext ?p output_format ?s1 = (r, s')" by force
  have "exists_path ?s1 ?p" by (rule scratch_written)
  with run have ex: "exists_path s' ?p" by (rule generate_3d_model_keeps)
  then have "snd (image_to_3d ext img output_format s) = s'"
    using run refused
    by (auto simp: image_to_3d_def uuid4_def unlink_def exists_path_def split: option.splits)
  with ex show ?thesis by simp
qed

lemma endpoints_scratch_absent:
  assumes "unlink_error ext p = None"
  shows "(p \<in> set (snd (fst (generate_toy_try ext person_image style_guide prompt output_format s)))
            \<longrightarrow> \<not> exists_path
                   (snd (generate_toy_endpoint ext person_image style_guide prompt output_format s)) p)
       \<and> (p \<in> {person_temp_path (uuid4_draw ext (drawn s)),
                style_temp_path (uuid4_draw ext (Suc (drawn s)))}
            \<longrightarrow> \<not> exists_path (snd (generate_image_only ext person_image style_guide prompt s)) p)
       \<and> (p = input_temp_path (uuid4_draw ext (drawn s))
            \<longrightarrow> \<not> exists_path (snd (image_to_3d ext img output_format s)) p)"
proof (intro conjI impI)
  assume "p \<in> set (snd (fst (generate_toy_try ext person_image style_guide prompt output_format s)))"
  then show "\<not> exists_path
                   (snd (generate_toy_endpoint ext person_image style_guide prompt output_format s)) p"
    using assms
    by (auto simp: generate_toy_endpoint_def exists_path_def cleanup_temp_absent
        split: prod.splits)
next
  assume "p \<in> {person_temp_path (uuid4_draw ext (drawn s)),
                style_temp_path (uuid4_draw ext (Suc (drawn s)))}"
  then have "p \<in> set [person_temp_path (uuid4_draw ext (drawn s)),
                       style_temp_path (uuid4_draw ext (Suc (drawn s)))]" by simp
  from cleanup_temp_absent[OF this assms]
  have absent: "\<And>t. map_of (fs (cleanup_temp ext
         [person_temp_path (uuid4_draw ext (drawn s)),
          style_temp_path (uuid4_draw ext (Suc (drawn s)))] t)) p = None" .
  have "\<exists>t. snd (generate_image_only ext person_image style_guide prompt s) =
          cleanup_temp ext [person_temp_path (uuid4_draw ext (drawn s)),
                            style_temp_path (uuid4_draw ext (Suc (drawn s)))] t"
    by (auto simp: generate_image_only_def uuid4_def split: prod.splits simp del: cleanup_temp.simps)
  with absent
  show "\<not> exists_path (snd (generate_image_only ext person_image style_guide prompt s)) p"
    by (auto simp: exists_path_def simp del: cleanup_temp.simps)
next
  assume "p = input_temp_path (uuid4_draw ext (drawn s))"
  then show "\<not> exists_path (snd (image_to_3d ext img output_format s)) p"
    using assms
    by (auto simp: image_to_3d_def exists_path_def uuid4_def unlink_def AList.delete_conv'
        split: prod.splits option.splits)
qed

text \<open>
  \<^bold>\<open>C5\<close>.  On every exit path of the three upload endpoints (the statement is
  about the state left behind, whatever the outcome), a scratch path the request named
  exists afterwards if and only if the system refuses its deletion: where the deletion
  is not refused the path is absent, where it is refused the file stays.  A refusal is
  passed over: the outcome of the request is the same in every world that differs only
  in what deletions are refused.  For \<open>/generate-toy\<close> the named paths are the
  list \<open>temp_files\<close>: empty when the uploads were rejected, the person and style
  paths otherwise.
\<close>

theorem C5_scratch_files_removed:
  "(p \<in> set (snd (fst (generate_toy_try ext person_image style_guide prompt output_format s)))
      \<longrightarrow> exists_path
             (snd (generate_toy_endpoint ext person_image style_guide prompt output_format s)) p
           = (unlink_error ext p \<noteq> None))
   \<and> (p \<in> {person_temp_path (uuid4_draw ext (drawn s)),
            style_temp_path (uuid4_draw ext (Suc (drawn s)))}
      \<longrightarrow> exists_path (snd (generate_image_only ext person_image style_guide prompt s)) p
           = (unlink_error ext p \<noteq> None))
   \<and> (p = input_temp_path (uuid4_draw ext (drawn s))
      \<longrightarrow> exists_path (snd (image_to_3d ext img output_format s)) p
           = (unlink_error ext p \<noteq> None))
   \<and> fst (generate_toy_endpoint (ext\<lparr>unlink_error := g\<rparr>) person_image style_guide prompt
             output_format s) =
       fst (generate_toy_endpoint ext person_image style_guide prompt output_format s)
   \<and> fst (generate_image_only (ext\<lparr>unlink_error := g\<rparr>) person_image style_guide prompt s) =
       fst (generate_image_only ext person_image style_guide prompt s)
   \<and> fst (image_to_3d (ext\<lparr>unlink_error := g\<rparr>) img output_format s) =
       fst (image_to_3d ext img output_format s)"
proof (cases "unlink_error ext p")
  case None
  from endpoints_scratch_absent[OF None, of person_image style_guide prompt output_format s img]
  show ?thesis using None by (auto simp: endpoints_outcome_unlink_error)
next
  case (Some m)
  have a: "p \<in> set (snd (fst (generate_toy_try ext person_image style_guide prompt output_format s)))
      \<Longrightarrow> exists_path
             (snd (generate_toy_endpoint ext person_image style_guide prompt output_format s)) p"
    by (rule generate_toy_endpoint_refused[OF _ Some])
  have b: "p \<in> {person_temp_path (uuid4_draw ext (drawn s)),
            style_temp_path (uuid4_draw ext (Suc (drawn s)))}
      \<Longrightarrow> exists_path (snd (generate_image_only ext person_image style_guide prompt s)) p"
    by (rule generate_image_only_refused[OF _ Some])
  have c: "p = input_temp_path (uuid4_draw ext (drawn s))
      \<Longrightarrow> exists_path (snd (image_to_3d ext img output_format s)) p"
    using Some image_to_3d_refused by simp
  from a b c Some show ?thesis by (auto simp: endpoints_outcome_unlink_error)
qed

theorem C5_scratch_files_removed_witness:
  "person_temp_path ''u''
        \<in> set (snd (fst (generate_toy_try ext0 up_png up_png ''a toy'' ''all'' s0)))
   \<and> unlink_error ext0 (person_temp_path ''u'') = None
   \<and> \<not> exists_path (snd (generate_toy_endpoint ext0 up_png up_png ''a toy'' ''all'' s0))
          (person_temp_path ''u'')
   \<and> unlink_error ext_scratch_locked (input_temp_path ''u'') = Some ''Permission denied''
   \<and> exists_path (snd (image_to_3d ext_scratch_locked up_png ''gaussian'' s0))
        (input_temp_path ''u'')"
proof -
  have h: "unlink_error ext0 (person_temp_path ''u'') = None" by (simp add: ext0_def)
  have m: "person_temp_path ''u''
        \<in> set (snd (fst (generate_toy_try ext0 up_png up_png ''a toy'' ''all'' s0)))"
    by (simp add: generate_toy_temp_files startswith_def world_defs)
  have r: "unlink_error ext_scratch_locked (input_temp_path ''u'') = Some ''Permission denied''"
    by (simp add: ext_scratch_locked_def)
  have u: "uuid4_draw ext_scratch_locked (drawn s0) = ''u''"
    by (simp add: ext_scratch_locked_def world_defs)
  from C5_scratch_files_removed[of "person_temp_path ''u''" ext0 up_png up_png "''a toy''" "''all''" s0] h m
  have a: "\<not> exists_path (snd (generate_toy_endpoint ext0 up_png up_png ''a toy'' ''all'' s0))
          (person_temp_path ''u'')" by simp
  from C5_scratch_files_removed[of "input_temp_path ''u''" ext_scratch_locked _ _ _ "''gaussian''" s0 up_png] r u
  have b: "exists_path (snd (image_to_3d ext_scratch_locked up_png ''gaussian'' s0))
        (input_temp_path ''u'')" by simp
  from m h a r b show ?thesis by blast
qed

text \<open>
  When the system refuses the deletion, the error is passed over and the scratch file
  stays, while the request succeeds.
\<close>

theorem C5_scratch_files_removed_counterexample:
  "unlink_error ext_scratch_locked (input_temp_path ''u'') = Some ''Permission denied''
   \<and> fst (image_to_3d ext_scratch_locked up_png ''gaussian'' s0) =
       Inr \<lparr>success = True, model_id = ''uu'',
            files = [(''ply'', ''outputs/model_uu.ply''),
                     (''preview_video'', ''outputs/preview_uu.mp4'')],
            formats = [''gaussian'']\<rparr>
   \<and> exists_path (snd (image_to_3d ext_scratch_locked up_png ''gaussian'' s0))
        (input_temp_path ''u'')"
  by (simp add: image_to_3d_def exists_path_def unlink_def model_defs ext_scratch_locked_def
        world_defs input_temp_path_def ply_path_def video_path_def str_path_def
        AList.update_conv')

subsection \<open>The image synthesizer\<close>

lemma first_inline_simps:
  "first_inline [] = None"
  "first_inline (p # ps) = (case inline_data p of None \<Rightarrow> first_inline ps | Some d \<Rightarrow> Some d)"
  by (simp_all add: first_inline_def map_filter_simps split: option.splits)

lemma save_first_inline_eq:
  "save_first_inline ext parts s =
     (case first_inline parts of
        None \<Rightarrow> (Inr None, s)
      | Some d \<Rightarrow>
          (case image_decode ext d of
             Inl m \<Rightarrow> (Inl (Exception m), s)
           | Inr img \<Rightarrow>
               (case image_save ext img of
                  Inl m \<Rightarrow> (Inl (Exception m), s\<lparr>drawn := Suc (drawn s)\<rparr>)
                | Inr b \<Rightarrow>
                    (Inr (Some (toy_output_path (uuid4_draw ext (drawn s)))),
                     write_file (toy_output_path (uuid4_draw ext (drawn s))) b
                       (s\<lparr>drawn := Suc (drawn s)\<rparr>)))))"
  by (induction parts)
     (simp_all add: first_inline_simps uuid4_def split: option.splits sum.splits)

text \<open>
  \<^bold>\<open>C2\<close>.  When the person image opens and the hosted model answers with a
  response whose first candidate has a list of parts: if no part carries inline data,
  \<open>generate_toy_image\<close> raises status 500 with the detail
  \<open>"Error generating toy image: "\<close> followed by the rendering of its own
  \<open>HTTPException(500, "Model did not return an image")\<close>, and writes nothing; if
  some part carries inline data, only the first such payload is used: when it decodes
  and saves, exactly it is written to \<open>outputs/generated_toy_<uuid>.png\<close> under
  the next uuid and that path is returned; when it does not decode or does not save,
  status 500 is raised with the library's message and nothing is written.
\<close>

theorem C2_image_synthesizer:
  assumes opened: "Image_open ext person_image_path s = Inr person_image"
      and answered:
        "generate_content ext (length (model_calls s))
           ''gemini-2.0-flash-preview-image-generation'' (final_prompt u c d) person_image
           [''TEXT'', ''IMAGE''] = Inr resp"
      and parts: "parts_of resp = Inr parts"
  shows "(first_inline parts = None \<longrightarrow>
            fst (generate_toy_image ext u c d person_image_path s) =
              Inl (HTTPException 500
                     (''Error generating toy image: '' @
                        str_HTTPException ext 500 ''Model did not return an image''))
            \<and> fs (snd (generate_toy_image ext u c d person_image_path s)) = fs s)
       \<and> (\<forall>payload. first_inline parts = Some payload \<longrightarrow>
            (\<forall>m. image_decode ext payload = Inl m \<longrightarrow>
               fst (generate_toy_image ext u c d person_image_path s) =
                 Inl (HTTPException 500 (''Error generating toy image: '' @ m))
               \<and> fs (snd (generate_toy_image ext u c d person_image_path s)) = fs s)
          \<and> (\<forall>img m. image_decode ext payload = Inr img \<longrightarrow> image_save ext img = Inl m \<longrightarrow>
               fst (generate_toy_image ext u c d person_image_path s) =
                 Inl (HTTPException 500 (''Error generating toy image: '' @ m))
               \<and> fs (snd (generate_toy_image ext u c d person_image_path s)) = fs s)
          \<and> (\<forall>img b. image_decode ext payload = Inr img \<longrightarrow> image_save ext img = Inr b \<longrightarrow>
               fst (generate_toy_image ext u c d person_image_path s) =
                 Inr (toy_output_path (uuid4_draw ext (drawn s)))
               \<and> fs (snd (generate_toy_image ext u c d person_image_path s)) =
                   AList.update (toy_output_path (uuid4_draw ext (drawn s)))
                     \<lparr>is_file = True, st_mtime = clock s, data = b\<rparr> (fs s)))"
  using opened answered parts
  by (auto simp: generate_toy_image_def generate_toy_image_try_def save_first_inline_eq
        generate_content_call_def print_line_def lift_ext_def write_file_def str_exn_def)

theorem C2_image_synthesizer_witness:
  "Image_open ext0 (OUTPUT_DIR, ''toy.png'') s0 = Inr (PIL_Image ''toy-bytes'')
   \<and> parts_of response0 =
       Inr [\<lparr>part_text = Some ''Here is your toy'', inline_data = None\<rparr>,
            \<lparr>part_text = None, inline_data = Some ''png-1''\<rparr>,
            \<lparr>part_text = None, inline_data = Some ''png-2''\<rparr>]
   \<and> first_inline
        [\<lparr>part_text = Some ''Here is your toy'', inline_data = None\<rparr>,
         \<lparr>part_text = None, inline_data = Some ''png-1''\<rparr>,
         \<lparr>part_text = None, inline_data = Some ''png-2''\<rparr>] = Some ''png-1''
   \<and> fst (generate_toy_image ext0 ''a toy'' ''pd'' ''sd'' (OUTPUT_DIR, ''toy.png'') s0) =
       Inr (toy_output_path ''u'')
   \<and> fs (snd (generate_toy_image ext0 ''a toy'' ''pd'' ''sd'' (OUTPUT_DIR, ''toy.png'') s0)) =
       fs s0 @ [(toy_output_path ''u'', \<lparr>is_file = True, st_mtime = 100, data = ''png-1''\<rparr>)]"
proof -
  let ?parts = "[\<lparr>part_text = Some ''Here is your toy'', inline_data = None\<rparr>,
            \<lparr>part_text = None, inline_data = Some ''png-1''\<rparr>,
            \<lparr>part_text = None, inline_data = Some ''png-2''\<rparr>]"
  have h1: "Image_open ext0 (OUTPUT_DIR, ''toy.png'') s0 = Inr (PIL_Image ''toy-bytes'')"
    by (simp add: Image_open_def lift_ext_def world_defs)
  have h2: "generate_content ext0 (length (model_calls s0))
           ''gemini-2.0-flash-preview-image-generation'' (final_prompt ''a toy'' ''pd'' ''sd'')
           (PIL_Image ''toy-bytes'') [''TEXT'', ''IMAGE''] = Inr response0"
    by (simp add: ext0_def)
  have h3: "parts_of response0 = Inr ?parts"
    by (simp add: parts_of_def response0_def)
  have f: "first_inline ?parts = Some ''png-1''"
    by (simp add: first_inline_def map_filter_simps)
  have dec: "image_decode ext0 ''png-1'' = Inr (PIL_Image ''png-1'')"
    and sav: "image_save ext0 (PIL_Image ''png-1'') = Inr ''png-1''"
    and uid: "uuid4_draw ext0 (drawn s0) = ''u''" and clk: "clock s0 = 100"
    by (simp_all add: world_defs)
  have upd: "AList.update (toy_output_path ''u'')
               \<lparr>is_file = True, st_mtime = 100, data = ''png-1''\<rparr> (fs s0) =
             fs s0 @ [(toy_output_path ''u'', \<lparr>is_file = True, st_mtime = 100, data = ''png-1''\<rparr>)]"
    by (simp add: s0_def toy_output_path_def)
  from C2_image_synthesizer[OF h1 h2 h3] f dec sav
  have "fst (generate_toy_image ext0 ''a toy'' ''pd'' ''sd'' (OUTPUT_DIR, ''toy.png'') s0) =
          Inr (toy_output_path (uuid4_draw ext0 (drawn s0)))
      \<and> fs (snd (generate_toy_image ext0 ''a toy'' ''pd'' ''sd'' (OUTPUT_DIR, ''toy.png'') s0)) =
          AList.update (toy_output_path (uuid4_draw ext0 (drawn s0)))
            \<lparr>is_file = True, st_mtime = clock s0, data = ''png-1''\<rparr> (fs s0)"
    by blast
  with h1 h3 f upd show ?thesis by (simp add: uid clk)
qed

text \<open>
  A response may hold an inline payload and still end in the server error: the first
  payload does not decode, the second is never tried, nothing is persisted.
\<close>

theorem C2_image_synthesizer_counterexample:
  "first_inline parts_junk = Some ''junk''
   \<and> fst (generate_toy_image ext_junk ''a toy'' ''pd'' ''sd'' (OUTPUT_DIR, ''toy.png'') s0) =
       Inl (HTTPException 500 ''Error generating toy image: cannot identify image file'')
   \<and> fs (snd (generate_toy_image ext_junk ''a toy'' ''pd'' ''sd'' (OUTPUT_DIR, ''toy.png'') s0)) =
       fs s0"
  by (simp add: first_inline_def map_filter_simps parts_junk_def generate_toy_image_def
        generate_toy_image_try_def generate_content_call_def parts_of_def Image_open_def
        lift_ext_def print_line_def str_exn_def ext_junk_def world_defs)

subsection \<open>Identifiers and retention\<close>

lemma analyze_person_image_drawn:
  "analyze_person_image ext ip s = (r, s') \<Longrightarrow> drawn s' = drawn s"
  by (auto simp: analyze_person_image_def generate_content_call_def
      split: sum.splits prod.splits)

lemma analyze_toy_style_drawn:
  "analyze_toy_style ext ip s = (r, s') \<Longrightarrow> drawn s' = drawn s"
  by (auto simp: analyze_toy_style_def generate_content_call_def
      split: sum.splits prod.splits)

lemma generate_toy_image_drawn:
  assumes "generate_toy_image ext u c d ip s = (r, s')"
  shows "drawn s \<le> drawn s'
       \<and> (\<forall>path. r = Inr path \<longrightarrow>
              path = toy_output_path (uuid4_draw ext (drawn s)) \<and> drawn s' = Suc (drawn s))"
  using assms
  by (auto simp: generate_toy_image_def generate_toy_image_try_def save_first_inline_eq
        generate_content_call_def print_line_def write_file_def
      split: sum.splits prod.splits option.splits)

lemma gaussian_block_drawn:
  "gaussian_block ext fmts outs uid rf s = (r, s') \<Longrightarrow> drawn s' = drawn s"
  by (auto simp: gaussian_block_def write_file_def split: sum.splits option.splits if_splits)

lemma mesh_block_drawn:
  "mesh_block ext fmts outs uid rf s = (rf', s') \<Longrightarrow> drawn s' = drawn s"
  by (auto simp: mesh_block_def write_file_def print_line_def
      split: sum.splits option.splits if_splits)

lemma generate_3d_model_drawn:
  assumes "generate_3d_model ext ip fmt s = (r, s')"
  shows "drawn s \<le> drawn s'
       \<and> (\<forall>res. r = Inr res \<longrightarrow>
              model_id res = uuid4_draw ext (drawn s) \<and> drawn s' = Suc (drawn s))"
proof -
  have "r = Inl e \<Longrightarrow> drawn s \<le> drawn s'" for e
    using assms
    by (auto simp: generate_3d_model_def generate_3d_model_try_def prim_defs
        split: sum.splits prod.splits dest!: gaussian_block_drawn mesh_block_drawn)
  moreover have "r = Inr res \<Longrightarrow>
      model_id res = uuid4_draw ext (drawn s) \<and> drawn s' = Suc (drawn s)" for res
    using assms
    by (auto simp: generate_3d_model_def generate_3d_model_try_def prim_defs
        split: sum.splits prod.splits dest!: gaussian_block_drawn mesh_block_drawn)
  ultimately show ?thesis by (cases r) auto
qed

lemma cleanup_temp_drawn: "drawn (cleanup_temp ext ps s) = drawn s"
  by (induction ps arbitrary: s) (auto simp: unlink_def split: option.splits)

lemma sweep_files_drawn:
  "sweep_files ext now ps c s = (r, s') \<Longrightarrow> drawn s' = drawn s"
  by (induction ps arbitrary: c s)
     (auto simp: unlink_def split: option.splits if_splits prod.splits sum.splits)

lemma cleanup_files_drawn: "drawn (snd (cleanup_files ext s)) = drawn s"
  by (auto simp: cleanup_files_def split: prod.splits sum.splits
      dest!: sweep_files_drawn)


lemma toy_pipeline_drawn:
  assumes "toy_pipeline ext pp sp prompt fmt s = (r, s')"
  shows "drawn s \<le> drawn s'
       \<and> (\<forall>v. r = Inr v \<longrightarrow>
              toy_image v = str_path (toy_output_path (uuid4_draw ext (drawn s)))
              \<and> model_id (toy_model_result v) = uuid4_draw ext (Suc (drawn s))
              \<and> drawn s' = Suc (Suc (drawn s)))"
  using assms
  apply (simp add: toy_pipeline_def io_bind_def io_print_def io_return_def print_line_def
      split: sum.splits prod.splits)
  apply (auto dest!: analyze_person_image_drawn analyze_toy_style_drawn
      generate_toy_image_drawn generate_3d_model_drawn)
  done

lemma image_only_pipeline_drawn:
  assumes "image_only_pipeline ext pp sp prompt s = (r, s')"
  shows "drawn s \<le> drawn s'
       \<and> (\<forall>v. r = Inr v \<longrightarrow>
              img_toy_image v = str_path (toy_output_path (uuid4_draw ext (drawn s)))
              \<and> drawn s' = Suc (drawn s))"
  using assms
  apply (simp add: image_only_pipeline_def io_bind_def io_return_def
      split: sum.splits prod.splits)
  apply (auto dest!: analyze_person_image_drawn analyze_toy_style_drawn
      generate_toy_image_drawn)
  done

lemma drawn_assets_mono:
  "lo' \<le> lo \<Longrightarrow> hi \<le> hi' \<Longrightarrow> drawn_assets ext lo hi \<subseteq> drawn_assets ext lo' hi'"
  by (fastforce simp: drawn_assets_def)

lemma drawn_assets_image:
  "lo \<le> i \<Longrightarrow> i < hi \<Longrightarrow>
     Image_asset (str_path (toy_output_path (uuid4_draw ext i))) \<in> drawn_assets ext lo hi"
  by (auto simp: drawn_assets_def)

lemma drawn_assets_model:
  "lo \<le> i \<Longrightarrow> i < hi \<Longrightarrow> Model_asset (uuid4_draw ext i) \<in> drawn_assets ext lo hi"
  by (auto simp: drawn_assets_def)

lemma drawn_assets_disjoint:
  assumes "inj (uuid4_draw ext)" and "hi \<le> lo'"
  shows "drawn_assets ext lo hi \<inter> drawn_assets ext lo' hi' = {}"
proof -
  have "\<And>i j. uuid4_draw ext i = uuid4_draw ext j \<Longrightarrow> i = j"
    using assms(1) by (simp add: inj_eq)
  with assms(2) show ?thesis
    by (fastforce simp: drawn_assets_def str_path_def toy_output_path_def)
qed


lemma handle_assets:
  assumes "handle ext rq s = (named, s')"
  shows "drawn s \<le> drawn s' \<and> set named \<subseteq> drawn_assets ext (drawn s) (drawn s')
       \<and> distinct named"
proof (cases rq)
  case (Generate_toy person_image style_guide prompt output_format)
  obtain r temp_files t where tr: "generate_toy_try ext person_image style_guide prompt
                                      output_format s = ((r, temp_files), t)"
    by (metis prod.collapse)
  have end_state: "snd (generate_toy_endpoint ext person_image style_guide prompt output_format s)
                     = cleanup_temp ext temp_files t"
    and end_result: "fst (generate_toy_endpoint ext person_image style_guide prompt output_format s)
                     = (case r of Inl e \<Rightarrow> Inl (generate_toy_except e) | Inr v \<Rightarrow> Inr v)"
    using tr by (simp_all add: generate_toy_endpoint_def)
  have t: "drawn s \<le> drawn t
       \<and> (\<forall>v. r = Inr v \<longrightarrow>
              toy_image v = str_path (toy_output_path (uuid4_draw ext (Suc (Suc (drawn s)))))
              \<and> model_id (toy_model_result v) = uuid4_draw ext (Suc (Suc (Suc (drawn s))))
              \<and> drawn t = Suc (Suc (Suc (Suc (drawn s)))))"
    using tr
    by (auto simp: generate_toy_try_def uuid4_def write_file_def
        split: option.splits if_splits prod.splits dest!: toy_pipeline_drawn)
  have s': "drawn s' = drawn t"
    using assms Generate_toy end_state
    by (auto simp: cleanup_temp_drawn split: prod.splits sum.splits)
  show ?thesis
  proof (cases r)
    case (Inl e)
    with assms Generate_toy end_result have "named = []"
      by (auto split: prod.splits sum.splits)
    with t s' show ?thesis by simp
  next
    case (Inr v)
    with assms Generate_toy end_result
    have "named = [Image_asset (toy_image v), Model_asset (model_id (toy_model_result v))]"
      by (auto split: prod.splits sum.splits)
    with t s' Inr show ?thesis
      by (simp add: drawn_assets_image drawn_assets_model)
  qed
next
  case (Generate_image_only person_image style_guide prompt)
  let ?run = "generate_image_only ext person_image style_guide prompt s"
  have t: "drawn s \<le> drawn (snd ?run)
       \<and> (\<forall>v. fst ?run = Inr v \<longrightarrow>
              img_toy_image v = str_path (toy_output_path (uuid4_draw ext (Suc (Suc (drawn s)))))
              \<and> drawn (snd ?run) = Suc (Suc (Suc (drawn s))))"
    by (auto simp: generate_image_only_def uuid4_def write_file_def cleanup_temp_drawn
        split: prod.splits dest!: image_only_pipeline_drawn simp del: cleanup_temp.simps)
  show ?thesis
  proof (cases "fst ?run")
    case (Inl e)
    with assms Generate_image_only have "named = []" "s' = snd ?run"
      by (auto split: prod.splits sum.splits)
    with t show ?thesis by simp
  next
    case (Inr v)
    with assms Generate_image_only have "named = [Image_asset (img_toy_image v)]" "s' = snd ?run"
      by (auto split: prod.splits sum.splits)
    with t Inr show ?thesis by (simp add: drawn_assets_image)
  qed
next
  case (Image_to_3d img output_format)
  let ?run = "image_to_3d ext img output_format s"
  have t: "drawn s \<le> drawn (snd ?run)
       \<and> (\<forall>v. fst ?run = Inr v \<longrightarrow>
              model_id v = uuid4_draw ext (Suc (drawn s))
              \<and> drawn (snd ?run) = Suc (Suc (drawn s)))"
    by (auto simp: image_to_3d_def uuid4_def write_file_def unlink_def
        split: prod.splits option.splits dest!: generate_3d_model_drawn)
  show ?thesis
  proof (cases "fst ?run")
    case (Inl e)
    with assms Image_to_3d have "named = []" "s' = snd ?run"
      by (auto split: prod.splits sum.splits)
    with t show ?thesis by simp
  next
    case (Inr v)
    with assms Image_to_3d have "named = [Model_asset (model_id v)]" "s' = snd ?run"
      by (auto split: prod.splits sum.splits)
    with t Inr show ?thesis by (simp add: drawn_assets_model)
  qed
next
  case Cleanup
  with assms show ?thesis by (auto simp: cleanup_files_drawn)
qed

lemma serve_assets:
  assumes "inj (uuid4_draw ext)" and "serve ext rqs s = (named, s')"
  shows "drawn s \<le> drawn s' \<and> set named \<subseteq> drawn_assets ext (drawn s) (drawn s')
       \<and> distinct named"
  using assms(2)
proof (induction rqs arbitrary: s named s')
  case Nil
  then show ?case by simp
next
  case (Cons a rqs)
  obtain t rq where a: "a = (t, rq)" by (cases a)
  obtain n1 s1 where h: "handle ext rq (s\<lparr>clock := t\<rparr>) = (n1, s1)" by force
  obtain n2 s2 where r: "serve ext rqs s1 = (n2, s2)" by force
  from Cons.prems a h r have named: "named = n1 @ n2" and s': "s' = s2" by simp_all
  from handle_assets[OF h]
  have h1: "drawn s \<le> drawn s1" "set n1 \<subseteq> drawn_assets ext (drawn s) (drawn s1)" "distinct n1"
    by simp_all
  from Cons.IH[OF r]
  have h2: "drawn s1 \<le> drawn s2" "set n2 \<subseteq> drawn_assets ext (drawn s1) (drawn s2)" "distinct n2"
    by simp_all
  have "set n1 \<inter> set n2 = {}"
    using h1(2) h2(2) drawn_assets_disjoint[OF assms(1), of "drawn s1" "drawn s1" "drawn s" "drawn s2"]
    by blast
  moreover have "set n1 \<subseteq> drawn_assets ext (drawn s) (drawn s2)"
    using h1(2) drawn_assets_mono[of "drawn s" "drawn s" "drawn s1" "drawn s2" ext] h2(1) by blast
  moreover have "set n2 \<subseteq> drawn_assets ext (drawn s) (drawn s2)"
    using h2(2) drawn_assets_mono[of "drawn s" "drawn s1" "drawn s2" "drawn s2" ext] h1(1) by blast
  ultimately show ?case using named s' h1 h2 by auto
qed


lemma sweep_files_keeps:
  "sweep_files ext now ps c s = (r, s') \<Longrightarrow> map_of (fs s) p = Some e \<Longrightarrow>
     \<not> (p \<in> set ps \<and> file_old now e) \<Longrightarrow> map_of (fs s') p = Some e"
proof (induction ps arbitrary: c s)
  case Nil
  then show ?case by simp
next
  case (Cons q ps)
  show ?case
  proof (cases "map_of (fs s) q")
    case None
    with Cons.prems have "sweep_files ext now ps c s = (r, s')" by simp
    from Cons.IH[OF this Cons.prems(2)] Cons.prems(3) show ?thesis by auto
  next
    case (Some eq)
    show ?thesis
    proof (cases "file_old now eq")
      case False
      with Cons.prems Some have "sweep_files ext now ps c s = (r, s')"
        by (auto simp: file_old_def split: if_splits)
      from Cons.IH[OF this Cons.prems(2)] Cons.prems(3) show ?thesis by auto
    next
      case True
      with Cons.prems(2,3) Some have ne: "p \<noteq> q" by auto
      show ?thesis
      proof (cases "unlink_error ext q")
        case (Some m)
        with Cons.prems \<open>map_of (fs s) q = Some eq\<close> True show ?thesis
          by (auto simp: file_old_def unlink_def)
      next
        case None
        let ?s1 = "s\<lparr>fs := AList.delete q (fs s)\<rparr>"
        from Cons.prems(1) \<open>map_of (fs s) q = Some eq\<close> True None
        have run: "sweep_files ext now ps (Suc c) ?s1 = (r, s')"
          by (simp add: file_old_def unlink_def)
        have "map_of (fs ?s1) p = Some e" using ne Cons.prems(2) by (simp add: AList.delete_conv')
        from Cons.IH[OF run this] Cons.prems(3) show ?thesis by auto
      qed
    qed
  qed
qed

lemma cleanup_files_keeps:
  assumes "map_of (fs s) p = Some e" and "\<not> expired (clock s) (p, e)"
  shows "map_of (fs (snd (cleanup_files ext s))) p = Some e"
proof -
  obtain x s1 where a: "sweep_files ext (clock s) (glob OUTPUT_DIR s) 0 s = (x, s1)" by force
  have k1: "\<not> (p \<in> set (glob OUTPUT_DIR s) \<and> file_old (clock s) e)"
    using assms(2) by (auto simp: glob_def expired_def)
  from sweep_files_keeps[OF a assms(1) k1] have m1: "map_of (fs s1) p = Some e" .
  show ?thesis
  proof (cases x)
    case (Inl err)
    with a m1 show ?thesis by (simp add: cleanup_files_def)
  next
    case (Inr c1)
    obtain y s2 where b: "sweep_files ext (clock s) (glob TEMP_DIR s1) c1 s1 = (y, s2)" by force
    have k2: "\<not> (p \<in> set (glob TEMP_DIR s1) \<and> file_old (clock s) e)"
      using assms(2) by (auto simp: glob_def expired_def)
    from sweep_files_keeps[OF b m1 k2] have "map_of (fs s2) p = Some e" .
    with a b Inr show ?thesis by (cases y) (simp_all add: cleanup_files_def)
  qed
qed

lemma temp_paths_dir:
  "fst (person_temp_path u) = TEMP_DIR" "fst (style_temp_path u) = TEMP_DIR"
  "fst (input_temp_path u) = TEMP_DIR"
  by (simp_all add: person_temp_path_def style_temp_path_def input_temp_path_def)

lemma handle_state:
  "snd (handle ext (Generate_toy person_image style_guide prompt output_format) s) =
     snd (generate_toy_endpoint ext person_image style_guide prompt output_format s)"
  "snd (handle ext (Generate_image_only person_image style_guide prompt) s) =
     snd (generate_image_only ext person_image style_guide prompt s)"
  "snd (handle ext (Image_to_3d img output_format) s) = snd (image_to_3d ext img output_format s)"
  "snd (handle ext Cleanup s) = snd (cleanup_files ext s)"
  by (simp_all split: prod.splits sum.splits)

lemma handle_keeps_outputs:
  assumes "rq \<noteq> Cleanup" and out: "fst p = OUTPUT_DIR" and ex: "exists_path s p"
  shows "exists_path (snd (handle ext rq s)) p"
proof (cases rq)
  case (Generate_toy person_image style_guide prompt output_format)
  obtain r temp_files t where tr: "generate_toy_try ext person_image style_guide prompt
                                      output_format s = ((r, temp_files), t)"
    by (metis prod.collapse)
  have t: "exists_path t p"
    using tr ex
    by (auto simp: generate_toy_try_def uuid4_def exists_path_def
        split: option.splits if_splits prod.splits
        dest!: toy_pipeline_keeps[where p = p] simp: write_file_def AList.update_conv')
  have "temp_files = snd (fst (generate_toy_try ext person_image style_guide prompt
                                 output_format s))" using tr by simp
  then have "p \<notin> set temp_files"
    using out by (auto simp: generate_toy_temp_files temp_paths_dir split: option.splits if_splits)
  then have "exists_path (cleanup_temp ext temp_files t) p"
    using t by (simp add: exists_path_def cleanup_temp_elsewhere)
  with tr Generate_toy show ?thesis
    by (simp add: handle_state generate_toy_endpoint_def del: handle.simps)
next
  case (Generate_image_only person_image style_guide prompt)
  let ?u1 = "uuid4_draw ext (drawn s)" and ?u2 = "uuid4_draw ext (Suc (drawn s))"
  let ?s4 = "write_file (style_temp_path ?u2) (content style_guide)
               (write_file (person_temp_path ?u1) (content person_image)
                  (s\<lparr>drawn := Suc (Suc (drawn s))\<rparr>))"
  obtain r s' where run: "image_only_pipeline ext (person_temp_path ?u1) (style_temp_path ?u2)
                            prompt ?s4 = (r, s')" by force
  have "exists_path ?s4 p"
    using ex by (simp add: exists_path_def write_file_def AList.update_conv')
  with run have ex': "exists_path s' p" by (rule image_only_pipeline_keeps)
  have notin: "p \<notin> set [person_temp_path ?u1, style_temp_path ?u2]"
    using out by (auto simp: temp_paths_dir)
  have "map_of (fs (cleanup_temp ext [person_temp_path ?u1, style_temp_path ?u2] s')) p =
          map_of (fs s') p"
    using notin by (rule cleanup_temp_elsewhere)
  with ex' have "exists_path (cleanup_temp ext [person_temp_path ?u1, style_temp_path ?u2] s') p"
    unfolding exists_path_def by metis
  moreover have "snd (generate_image_only ext person_image style_guide prompt s) =
      cleanup_temp ext [person_temp_path ?u1, style_temp_path ?u2] s'"
    using run by (simp add: generate_image_only_def uuid4_def del: cleanup_temp.simps)
  ultimately show ?thesis using Generate_image_only
    by (simp add: handle_state del: handle.simps cleanup_temp.simps)
next
  case (Image_to_3d img output_format)
  let ?p = "input_temp_path (uuid4_draw ext (drawn s))"
  let ?s1 = "write_file ?p (content img) (s\<lparr>drawn := Suc (drawn s)\<rparr>)"
  obtain r s' where run: "generate_3d_model ext ?p output_format ?s1 = (r, s')" by force
  have "exists_path ?s1 p"
    using ex by (simp add: exists_path_def write_file_def AList.update_conv')
  with run have ex': "exists_path s' p" by (rule generate_3d_model_keeps)
  have ne: "p \<noteq> ?p" using out by (auto simp: temp_paths_dir)
  have "exists_path (snd (image_to_3d ext img output_format s)) p"
    using run ex' ne
    by (auto simp: image_to_3d_def uuid4_def unlink_def exists_path_def AList.delete_conv'
        split: option.splits)
  with Image_to_3d show ?thesis by (simp add: handle_state del: handle.simps)
next
  case Cleanup
  with assms(1) show ?thesis by simp
qed

lemma inj_uuid4_draw_ext0: "inj (uuid4_draw ext0)"
proof (rule injI)
  fix i j assume "uuid4_draw ext0 i = uuid4_draw ext0 j"
  then have "length (replicate (Suc i) CHR ''u'') = length (replicate (Suc j) CHR ''u'')"
    by (simp add: ext0_def)
  then show "i = j" by simp
qed

lemmas endpoint_defs = image_to_3d_def exists_path_def unlink_def model_defs
  input_temp_path_def ply_path_def video_path_def glb_path_def str_path_def

text \<open>
  \<^bold>\<open>C8\<close>.  The identifier of a reconstruction that returns is the next value of
  \<open>uuid.uuid4()\<close>, whatever the image and the format, and the draw is used up.
  When \<open>uuid.uuid4()\<close> never returns the same value twice, no two things named by
  the responses of a run of requests are the same, however the requests repeat.  No
  request but \<open>/cleanup\<close> removes a path of the output directory, and
  \<open>/cleanup\<close> leaves every entry that is not an expired file as it is.
\<close>

theorem C8_identifiers_and_retention:
  "(\<forall>res s'. generate_3d_model ext image_path output_format s = (Inr res, s') \<longrightarrow>
       model_id res = uuid4_draw ext (drawn s) \<and> drawn s' = Suc (drawn s))
   \<and> (inj (uuid4_draw ext) \<longrightarrow> distinct (fst (serve ext rqs s)))
   \<and> (rq \<noteq> Cleanup \<longrightarrow> fst p = OUTPUT_DIR \<longrightarrow> exists_path s p \<longrightarrow>
         exists_path (snd (handle ext rq s)) p)
   \<and> (\<forall>e. map_of (fs s) p = Some e \<longrightarrow> \<not> expired (clock s) (p, e) \<longrightarrow>
         map_of (fs (snd (handle ext Cleanup s))) p = Some e)"
proof (intro conjI allI impI)
  fix res s'
  assume "generate_3d_model ext image_path output_format s = (Inr res, s')"
  from generate_3d_model_drawn[OF this]
  show "model_id res = uuid4_draw ext (drawn s)" and "drawn s' = Suc (drawn s)" by simp_all
next
  assume i: "inj (uuid4_draw ext)"
  obtain named s' where run: "serve ext rqs s = (named, s')" by force
  from serve_assets[OF i run] run show "distinct (fst (serve ext rqs s))" by simp
next
  assume "rq \<noteq> Cleanup" "fst p = OUTPUT_DIR" "exists_path s p"
  then show "exists_path (snd (handle ext rq s)) p" by (rule handle_keeps_outputs)
next
  fix e assume "map_of (fs s) p = Some e" "\<not> expired (clock s) (p, e)"
  then show "map_of (fs (snd (handle ext Cleanup s))) p = Some e"
    by (simp add: cleanup_files_keeps)
qed

theorem C8_identifiers_and_retention_witness:
  "inj (uuid4_draw ext0)
   \<and> fst (serve ext0 [(100, Image_to_3d up_png ''gaussian''),
                     (200, Image_to_3d up_png ''gaussian'')] s0) =
       [Model_asset ''uu'', Model_asset ''uuuu'']
   \<and> distinct (fst (serve ext0 [(100, Image_to_3d up_png ''gaussian''),
                               (200, Image_to_3d up_png ''gaussian'')] s0))
   \<and> exists_path s0 (OUTPUT_DIR, ''toy.png'')
   \<and> exists_path (snd (handle ext0 (Image_to_3d up_png ''gaussian'') s0)) (OUTPUT_DIR, ''toy.png'')"
proof -
  let ?rqs = "[(100, Image_to_3d up_png ''gaussian''), (200, Image_to_3d up_png ''gaussian'')]"
  note inst = C8_identifiers_and_retention[of ext0 _ _ s0 ?rqs "Image_to_3d up_png ''gaussian''"
                "(OUTPUT_DIR, ''toy.png'')"]
  have ex: "exists_path s0 (OUTPUT_DIR, ''toy.png'')" by (simp add: exists_path_def s0_def)
  have d: "distinct (fst (serve ext0 ?rqs s0))"
    using inst inj_uuid4_draw_ext0 by blast
  have k: "exists_path (snd (handle ext0 (Image_to_3d up_png ''gaussian'') s0))
             (OUTPUT_DIR, ''toy.png'')"
    using inst ex by simp
  have v: "fst (serve ext0 ?rqs s0) = [Model_asset ''uu'', Model_asset ''uuuu'']"
    by (simp add: endpoint_defs world_defs AList.update_conv')
  from inj_uuid4_draw_ext0 v d ex k show ?thesis by blast
qed

text \<open>
  Nothing in the service compares a new identifier with the old ones: with a generator
  that repeats itself, two requests return the same \<open>model_id\<close>.
\<close>

theorem C8_identifiers_and_retention_counterexample:
  "fst (serve ext_same [(100, Image_to_3d up_png ''gaussian''),
                        (200, Image_to_3d up_png ''gaussian'')] s0) =
     [Model_asset ''same'', Model_asset ''same'']"
  by (simp add: endpoint_defs ext_same_def world_defs AList.update_conv')

subsection \<open>Prompt composition\<close>

lemma final_prompt_length:
  "length (final_prompt u c d) = length u + length c + length d + 170"
  by (simp add: final_prompt_def)

lemma save_first_inline_calls:
  "save_first_inline ext ps s = (r, s') \<Longrightarrow> model_calls s' = model_calls s"
  by (induction ps arbitrary: s)
     (auto simp: uuid4_def write_file_def split: option.splits sum.splits)

text \<open>
  \<^bold>\<open>C7\<close>.  Prompt composition is a function of the user prompt and the two
  descriptions alone (it reads neither the state nor the outside world): the composed
  string is the fixed template with the three inputs embedded in order, and it is
  exactly the string that \<open>generate_toy_image\<close> hands to the hosted model whenever
  the person image opens.
\<close>

theorem C7_prompt_composition:
  "final_prompt u c d =
     u @ ''. The main character of the figure should be based on a person with these features: **(''
       @ c @ '')**. The overall artistic look and feel of the toy should match this style: **(''
       @ d @ '')**.''
   \<and> model_calls (snd (generate_toy_image ext u c d p s)) =
       model_calls s @
         (case Image_open ext p s of
            Inl e \<Rightarrow> []
          | Inr img \<Rightarrow>
              [GenerateContent ''gemini-2.0-flash-preview-image-generation''
                 (final_prompt u c d) img [''TEXT'', ''IMAGE'']])"
proof
  show "final_prompt u c d =
     u @ ''. The main character of the figure should be based on a person with these features: **(''
       @ c @ '')**. The overall artistic look and feel of the toy should match this style: **(''
       @ d @ '')**.''"
    by (simp add: final_prompt_def)
next
  show "model_calls (snd (generate_toy_image ext u c d p s)) =
       model_calls s @
         (case Image_open ext p s of
            Inl e \<Rightarrow> []
          | Inr img \<Rightarrow>
              [GenerateContent ''gemini-2.0-flash-preview-image-generation''
                 (final_prompt u c d) img [''TEXT'', ''IMAGE'']])"
    by (auto simp: generate_toy_image_def generate_toy_image_try_def
          generate_content_call_def print_line_def
        split: prod.splits sum.splits option.splits dest!: save_first_inline_calls)
qed

end
